theory Spec2Isabelle
  imports Main
begin

section \<open>Exceptions and Python string formatting\<close>

text \<open>
  The exceptions the module can raise.  \<open>VersionTagError\<close> carries the error code and
  the message; the others are Python's own (\<open>AttributeError\<close> for a missing attribute,
  \<open>UnboundLocalError\<close> for a local read before assignment, \<open>IndexError\<close> for
  \<open>xs[0]\<close> on an empty list, \<open>ValueError\<close> for \<open>list.remove\<close> of an absent
  element) and \<open>CommandError\<close> of \<open>helpers.py\<close>.
\<close>

datatype error =
    VersionTagError int string
  | AttributeError
  | UnboundLocalError
  | IndexError
  | ValueError
  | CommandError string

text \<open>Decimal digits of a natural number, most significant first.\<close>

fun digits_of_nat :: "nat \<Rightarrow> string" where
  "digits_of_nat n =
     (if n < 10 then [''0123456789'' ! n]
      else digits_of_nat (n div 10) @ [''0123456789'' ! (n mod 10)])"

declare digits_of_nat.simps [simp del]

text \<open>\<open>"{}".format(i)\<close> and \<open>"{:d}".format(i)\<close> for an integer \<open>i\<close>.\<close>

definition format_d :: "int \<Rightarrow> string" where
  "format_d i = (if i < 0 then ''-'' @ digits_of_nat (nat (- i)) else digits_of_nat (nat i))"

text \<open>
  \<open>"{:02d}".format(i)\<close>: zero padding to a width of two characters, the sign
  counted in the width.
\<close>

definition format_02d :: "int \<Rightarrow> string" where
  "format_02d i =
     (if i < 0 then ''-'' @ digits_of_nat (nat (- i))
      else if i < 10 then ''0'' @ digits_of_nat (nat i)
      else digits_of_nat (nat i))"

text \<open>\<open>"{}".format(x)\<close> for a value that is a string or \<open>None\<close>.\<close>

definition format_opt :: "string option \<Rightarrow> string" where
  "format_opt x = (case x of None \<Rightarrow> ''None'' | Some s \<Rightarrow> s)"

section \<open>The class Version\<close>

text \<open>
  The attributes an instance receives from the arguments of \<open>__init__\<close>.  The
  provenance attributes default to \<open>None\<close>.  The attribute \<open>_version\<close> is assigned
  once, in \<open>__init__\<close>, from the three numbers and never again: it is the function
  \<open>version\<close> below.
\<close>

record Version =
  creatordate :: "string option"
  sw_article_num :: "int option"
  sha1 :: "string option"
  major_ver :: int
  minor_ver :: int
  build_num :: int
  tag_name :: "string option"

definition Version_init ::
  "int \<Rightarrow> int \<Rightarrow> int \<Rightarrow> string option \<Rightarrow> int option \<Rightarrow> string option \<Rightarrow> string option
     \<Rightarrow> Version" where
  "Version_init major minor build cdate article sha tag =
     \<lparr> creatordate = cdate, sw_article_num = article, sha1 = sha,
       major_ver = major, minor_ver = minor, build_num = build, tag_name = tag \<rparr>"

definition version :: "Version \<Rightarrow> int" where
  "version self = major_ver self * 10000 + minor_ver self * 100 + build_num self"

definition first_test_version :: int where
  "first_test_version = 900000"

text \<open>
  \<open>next(roll)\<close>.  For a \<open>roll\<close> that is none of the three strings no branch assigns
  \<open>next_ver\<close>, and reading it raises \<open>UnboundLocalError\<close>.  The new instance keeps
  creation date, article number and commit id; its tag name is the default \<open>None\<close>.
\<close>

definition next_ver_of :: "Version \<Rightarrow> string \<Rightarrow> error + int" where
  "next_ver_of self roll =
     (if roll = ''roll_major'' then Inr (version self + 10000 - (version self mod 10000))
      else if roll = ''roll_minor'' then Inr (version self + 100 - (version self mod 100))
      else if roll = ''roll_build'' then Inr (version self + 1)
      else Inl UnboundLocalError)"

definition Version_next :: "Version \<Rightarrow> string \<Rightarrow> error + Version" where
  "Version_next self roll =
     (case next_ver_of self roll of
        Inl e \<Rightarrow> Inl e
      | Inr next_ver \<Rightarrow>
          Inr (Version_init (next_ver div 10000) (next_ver mod 10000 div 100) (next_ver mod 100)
                 (creatordate self) (sw_article_num self) (sha1 self) None))"

text \<open>
  \<open>is_kind(kind)\<close> returns a boolean for the two known kinds and falls off the end
  (\<open>None\<close>) for any other string.  \<open>truthy\<close> is the truth value Python gives the
  result in a condition.
\<close>

definition Version_is_kind :: "Version \<Rightarrow> string \<Rightarrow> bool option" where
  "Version_is_kind self kind =
     (if kind = ''release'' then Some (version self < first_test_version)
      else if kind = ''test'' then Some (version self > first_test_version)
      else None)"

definition truthy :: "bool option \<Rightarrow> bool" where
  "truthy r = (r = Some True)"

definition Version_kind :: "Version \<Rightarrow> string" where
  "Version_kind self = (if version self < first_test_version then ''release'' else ''test'')"

text \<open>
  The comparison methods.  \<open>__ge__\<close> reads \<open>self.verison\<close>, an attribute no instance
  has, so it raises \<open>AttributeError\<close> before it compares anything.
\<close>

definition Version_eq :: "Version \<Rightarrow> Version \<Rightarrow> bool" where
  "Version_eq self other = (version self = version other)"

definition Version_gt :: "Version \<Rightarrow> Version \<Rightarrow> bool" where
  "Version_gt self other = (version self > version other)"

definition Version_lt :: "Version \<Rightarrow> Version \<Rightarrow> bool" where
  "Version_lt self other = (version self < version other)"

definition Version_ge :: "Version \<Rightarrow> Version \<Rightarrow> error + bool" where
  "Version_ge self other = Inl AttributeError"

definition Version_le :: "Version \<Rightarrow> Version \<Rightarrow> bool" where
  "Version_le self other = (version self \<le> version other)"

definition Version_ne :: "Version \<Rightarrow> Version \<Rightarrow> bool" where
  "Version_ne self other = (version self \<noteq> version other)"

text \<open>\<open>__str__\<close>: \<open>"{}.{:02d}.{:02d}".format(major, minor, build)\<close>.\<close>

definition Version_str :: "Version \<Rightarrow> string" where
  "Version_str self =
     format_d (major_ver self) @ ''.'' @ format_02d (minor_ver self) @ ''.''
       @ format_02d (build_num self)"

section \<open>parse_version_tag\<close>

text \<open>
  The pattern \<open>version_tag_regex\<close> is matched by Python's backtracking engine.  A
  piece of the pattern is modelled as a function from the text still to be read to the
  list of ways the piece can match at its start, each the matched text with the
  remaining text, in the order the engine tries them: a greedy \<open>?\<close> tries its
  operand before the empty match, and a concatenation tries every way of its second
  piece before it moves to the next way of its first.
\<close>

type_synonym matcher = "string \<Rightarrow> (string \<times> string) list"

definition digit :: "char \<Rightarrow> bool" where
  "digit c = (c \<in> set ''0123456789'')"

definition nonzero_digit :: "char \<Rightarrow> bool" where
  "nonzero_digit c = (c \<in> set ''123456789'')"

definition m_lit :: "string \<Rightarrow> matcher" where
  "m_lit l s = (if take (length l) s = l then [(l, drop (length l) s)] else [])"

definition m_class :: "(char \<Rightarrow> bool) \<Rightarrow> matcher" where
  "m_class P s = (case s of [] \<Rightarrow> [] | c # cs \<Rightarrow> if P c then [([c], cs)] else [])"

definition m_seq :: "matcher \<Rightarrow> matcher \<Rightarrow> matcher" where
  "m_seq p q s = concat (map (\<lambda>(a, r). map (\<lambda>(b, r'). (a @ b, r')) (q r)) (p s))"

definition m_opt :: "matcher \<Rightarrow> matcher" where
  "m_opt p s = p s @ [([], s)]"

primrec m_rep :: "nat \<Rightarrow> matcher \<Rightarrow> matcher" where
  "m_rep 0 p = (\<lambda>s. [([], s)])"
| "m_rep (Suc n) p = m_seq p (m_rep n p)"

text \<open>
  \<open>(1000[0-9]{4})/V([1-9]?[0-9]{1})_([0-9]{2})(_([0-9][0-9]))?\<close>: every way the pattern
  matches at the start of \<open>s\<close>, with the text of its five groups (\<open>None\<close> for a
  group that took no part) and the text left over.
\<close>

definition version_tag_regex ::
  "string \<Rightarrow> ((string \<times> string \<times> string \<times> string option \<times> string option) \<times> string) list" where
  "version_tag_regex s =
     concat (map (\<lambda>(g1, r1).
     concat (map (\<lambda>(slash, r2).
     concat (map (\<lambda>(g2, r3).
     concat (map (\<lambda>(uscore, r4).
     concat (map (\<lambda>(g3, r5).
       map (\<lambda>(g4, r6). ((g1, g2, g3, Some g4, Some (drop 1 g4)), r6))
         (m_seq (m_lit ''_'') (m_seq (m_class digit) (m_class digit)) r5)
       @ [((g1, g2, g3, None, None), r5)])
       (m_rep 2 (m_class digit) r4)))
       (m_lit ''_'' r3)))
       (m_seq (m_opt (m_class nonzero_digit)) (m_rep 1 (m_class digit)) r2)))
       (m_lit ''/V'' r1)))
       (m_seq (m_lit ''1000'') (m_rep 4 (m_class digit)) s))"

text \<open>\<open>int(s)\<close> for a string of decimal digits.\<close>

definition int_of_digits :: "string \<Rightarrow> int" where
  "int_of_digits s = foldl (\<lambda>a c. 10 * a + (int (of_char c) - 48)) 0 s"

text \<open>
  \<open>p.match(version_tag)\<close> is the first way the pattern matches at the start of the
  tag, or \<open>None\<close>; \<open>groups(default='00')\<close> puts \<open>'00'\<close> for a group that took no
  part.  The build number is read from the fifth group.
\<close>

definition parse_version_tag :: "string \<Rightarrow> (int \<times> int \<times> int \<times> int) option" where
  "parse_version_tag version_tag =
     (case version_tag_regex version_tag of
        [] \<Rightarrow> None
      | ((g1, g2, g3, g4, g5), rest) # others \<Rightarrow>
          Some (int_of_digits g1, int_of_digits g2, int_of_digits g3,
                int_of_digits (case g5 of None \<Rightarrow> ''00'' | Some b \<Rightarrow> b)))"

text \<open>
  The shape the specification gives for a version tag, read as a property of the whole
  string: an 8-digit product code that starts with \<open>1000\<close>, \<open>/V\<close>, a major number
  of one or two digits, \<open>_\<close>, a minor number of two digits and, optionally, \<open>_\<close>
  and a build number of two digits.  \<open>shape_tail n t\<close> reads \<open>t\<close> as a major
  number of \<open>n\<close> digits and what follows it.
\<close>

definition shape_tail :: "nat \<Rightarrow> string \<Rightarrow> bool" where
  "shape_tail n t =
     (length (take n t) = n \<and> list_all digit (take n t) \<and> take 1 (drop n t) = ''_'' \<and>
      length (take 2 (drop (n + 1) t)) = 2 \<and> list_all digit (take 2 (drop (n + 1) t)) \<and>
      (drop (n + 3) t = [] \<or>
       (take 1 (drop (n + 3) t) = ''_'' \<and> length (drop (n + 4) t) = 2 \<and>
        list_all digit (drop (n + 4) t))))"

definition recognized_shape :: "string \<Rightarrow> bool" where
  "recognized_shape s =
     (take 4 s = ''1000'' \<and> length (take 4 (drop 4 s)) = 4 \<and> list_all digit (take 4 (drop 4 s)) \<and>
      take 2 (drop 8 s) = ''/V'' \<and> (shape_tail 1 (drop 10 s) \<or> shape_tail 2 (drop 10 s)))"

definition has_recognized_prefix :: "string \<Rightarrow> bool" where
  "has_recognized_prefix s = list_ex (\<lambda>n. recognized_shape (take n s)) [0 ..< Suc (length s)]"

section \<open>The versions on HEAD\<close>

text \<open>
  \<open>versions.remove(x)\<close> deletes the first item that compares equal to \<open>x\<close>, with
  \<open>Version.__eq__\<close>, and raises \<open>ValueError\<close> when there is none.
\<close>

fun list_remove :: "Version \<Rightarrow> Version list \<Rightarrow> error + Version list" where
  "list_remove x [] = Inl ValueError"
| "list_remove x (y # ys) =
     (if Version_eq y x then Inr ys
      else (case list_remove x ys of Inl e \<Rightarrow> Inl e | Inr ys' \<Rightarrow> Inr (y # ys')))"

text \<open>The loop \<open>for head_version in head_versions: versions.remove(head_version)\<close>.\<close>

fun remove_each :: "Version list \<Rightarrow> Version list \<Rightarrow> error + Version list" where
  "remove_each [] versions = Inr versions"
| "remove_each (head_version # rest) versions =
     (case list_remove head_version versions of
        Inl e \<Rightarrow> Inl e
      | Inr versions' \<Rightarrow> remove_each rest versions')"

text \<open>
  \<open>get_head_versions\<close> returns the head versions (\<open>None\<close> when there are none) and
  changes the list it was given in place; the model returns the changed list as the
  second component.
\<close>

definition get_head_versions ::
  "Version list \<Rightarrow> string \<Rightarrow> error + (Version list option \<times> Version list)" where
  "get_head_versions versions head_sha1 =
     (let head_versions = filter (\<lambda>v. sha1 v = Some head_sha1) versions in
      if length head_versions > 0 then
        (case remove_each head_versions versions of
           Inl e \<Rightarrow> Inl e
         | Inr versions' \<Rightarrow> Inr (Some head_versions, versions'))
      else Inr (None, versions))"

section \<open>The world the script runs in\<close>

text \<open>
  What the script changes: the module's global list \<open>warning_msgs\<close>, the command lines
  handed to git through \<open>helpers.run_git_cmd\<close> (in the order of the calls), the files
  it writes and the text it prints.
\<close>

record world =
  warning_msgs :: "string list"
  git_calls :: "string list"
  files :: "string \<Rightarrow> string option"
  stdout :: "string list"

text \<open>
  What the script reads from the repository.  \<open>env_versions\<close> is the list
  \<open>get_versions_from_tags()\<close> builds from git's tags (ordered by ref name) and
  \<open>env_head_sha1\<close> the result of \<open>get_head_sha1()\<close>; \<open>env_git\<close> gives, for a
  command line, the standard output of git, or \<open>None\<close> when git ends with a non-zero
  return code.  \<open>env_repr\<close> is Python's formatting of a list of strings with
  \<open>"{}".format\<close>.
\<close>

record env =
  env_versions :: "Version list"
  env_head_sha1 :: string
  env_git :: "string \<Rightarrow> string option"
  env_repr :: "string list \<Rightarrow> string"

text \<open>Sequencing of two steps: an exception of the first step ends the sequence.\<close>

definition and_then ::
  "(world \<Rightarrow> (error + 'a) \<times> world) \<Rightarrow> ('a \<Rightarrow> world \<Rightarrow> (error + 'b) \<times> world)
     \<Rightarrow> world \<Rightarrow> (error + 'b) \<times> world" where
  "and_then f g w = (case f w of (Inl e, w') \<Rightarrow> (Inl e, w') | (Inr x, w') \<Rightarrow> g x w')"

text \<open>A step that does not touch the world.\<close>

definition pure_step :: "error + 'a \<Rightarrow> world \<Rightarrow> (error + 'a) \<times> world" where
  "pure_step r w = (r, w)"

text \<open>\<open>xs[0]\<close>.\<close>

definition first :: "'a list \<Rightarrow> error + 'a" where
  "first xs = (case xs of [] \<Rightarrow> Inl IndexError | x # rest \<Rightarrow> Inr x)"

text \<open>\<open>helpers.run_git_cmd(command)\<close>.\<close>

definition run_git_cmd :: "env \<Rightarrow> string \<Rightarrow> world \<Rightarrow> (error + string) \<times> world" where
  "run_git_cmd e command w =
     (let w' = w\<lparr>git_calls := git_calls w @ [''git '' @ command]\<rparr> in
      case env_git e (''git '' @ command) of
        None \<Rightarrow>
          (Inl (CommandError (''Git failed while running '' @ [CHR 0x27] @ command @ [CHR 0x27])), w')
      | Some out \<Rightarrow> (Inr out, w'))"

text \<open>
  \<open>s.strip()\<close> removes leading and trailing whitespace, and \<open>s.splitlines()\<close> cuts
  at line boundaries.  A character of the model is a code point below 256; among these
  Python counts as whitespace the code points 9 to 13, 28 to 31, 32, 133 and 160, and
  as line boundaries 10 to 13, 28 to 30 and 133.
\<close>

definition whitespace :: "char \<Rightarrow> bool" where
  "whitespace c =
     (c \<in> set [CHR 0x09, CHR 0x0A, CHR 0x0B, CHR 0x0C, CHR 0x0D, CHR 0x1C, CHR 0x1D, CHR 0x1E,
                CHR 0x1F, CHR 0x20, CHR 0x85, CHR 0xA0])"

definition strip :: "string \<Rightarrow> string" where
  "strip s = rev (dropWhile whitespace (rev (dropWhile whitespace s)))"

definition line_boundary :: "char \<Rightarrow> bool" where
  "line_boundary c =
     (c \<in> set [CHR 0x0A, CHR 0x0B, CHR 0x0C, CHR 0x0D, CHR 0x1C, CHR 0x1D, CHR 0x1E, CHR 0x85])"

fun splitlines_from :: "string \<Rightarrow> string \<Rightarrow> string list" where
  "splitlines_from line [] = (if line = [] then [] else [line])"
| "splitlines_from line [c] =
     (if line_boundary c then [line] else [line @ [c]])"
| "splitlines_from line (c # d # cs) =
     (if c = CHR 0x0D \<and> d = CHR 0x0A then line # splitlines_from [] cs
      else if line_boundary c then line # splitlines_from [] (d # cs)
      else splitlines_from (line @ [c]) (d # cs))"

definition splitlines :: "string \<Rightarrow> string list" where
  "splitlines s = splitlines_from [] s"

definition get_head_has_local_changes :: "env \<Rightarrow> world \<Rightarrow> (error + string \<times> string) \<times> world" where
  "get_head_has_local_changes e =
     and_then (run_git_cmd e ''diff'') (\<lambda>out1.
     and_then (run_git_cmd e ''diff --cached'') (\<lambda>out2.
       pure_step (Inr (strip out1, strip out2))))"

section \<open>The checks\<close>

fun check_head_version_already_used :: "Version \<Rightarrow> Version list \<Rightarrow> error + unit" where
  "check_head_version_already_used head_version [] = Inr ()"
| "check_head_version_already_used head_version (v # prev_versions) =
     (if Version_eq v head_version then
        Inl (VersionTagError 1
               (''The version '' @ Version_str head_version @ '' has already been used''))
      else check_head_version_already_used head_version prev_versions)"

text \<open>
  The loop of \<open>check_head_has_multiple_versions\<close> over the versions still to visit;
  \<open>head_versions[0]\<close> is read inside the loop only, where the list is not empty.
\<close>

fun multiple_versions_loop :: "Version list \<Rightarrow> Version list \<Rightarrow> error + unit" where
  "multiple_versions_loop head_versions [] = Inr ()"
| "multiple_versions_loop head_versions (v # rest) =
     (case first head_versions of
        Inl e \<Rightarrow> Inl e
      | Inr h0 \<Rightarrow>
          if Version_ne v h0 then
            Inl (VersionTagError 3
                   (''HEAD seems to be tagged with multiple versions. At least the tag ''
                    @ format_opt (tag_name v) @ '' and '' @ format_opt (tag_name h0)
                    @ '' have different versions.''))
          else multiple_versions_loop head_versions rest)"

definition check_head_has_multiple_versions :: "Version list \<Rightarrow> error + unit" where
  "check_head_has_multiple_versions head_versions =
     multiple_versions_loop head_versions head_versions"

text \<open>
  The search loop of \<open>check_head_version_skipped_a_version\<close>: the kind of the head
  version, the most recent version found so far and the previous versions still to
  visit.
\<close>

fun most_recent_loop :: "string \<Rightarrow> Version \<Rightarrow> Version list \<Rightarrow> Version" where
  "most_recent_loop head_version_kind most_recent_version [] = most_recent_version"
| "most_recent_loop head_version_kind most_recent_version (prev_version # rest) =
     most_recent_loop head_version_kind
       (if truthy (Version_is_kind prev_version head_version_kind)
           \<and> Version_gt prev_version most_recent_version
        then prev_version else most_recent_version)
       rest"

text \<open>\<open>x in xs\<close> for a list of versions: some item compares equal to \<open>x\<close>.\<close>

definition version_in :: "Version \<Rightarrow> Version list \<Rightarrow> bool" where
  "version_in x xs = list_ex (\<lambda>item. Version_eq item x) xs"

definition skipped_warning :: "Version \<Rightarrow> Version \<Rightarrow> string" where
  "skipped_warning head_version most_recent_version =
     ''HEAD is tagged with version '' @ Version_str head_version
     @ '' but the most recent version is '' @ Version_str most_recent_version
     @ ''. Was this the intention (you might have checked out an earlier commit)?''"

definition check_head_version_skipped_a_version ::
  "Version \<Rightarrow> Version list \<Rightarrow> world \<Rightarrow> (error + unit) \<times> world" where
  "check_head_version_skipped_a_version head_version prev_versions w =
     (let head_version_kind = Version_kind head_version;
          most_recent_version =
            most_recent_loop head_version_kind (Version_init 0 0 0 None None None None)
              prev_versions
      in
      if Version_le head_version most_recent_version then
        (Inr (),
         w\<lparr>warning_msgs := warning_msgs w @ [skipped_warning head_version most_recent_version]\<rparr>)
      else if Version_kind head_version = ''release'' then
        (case Version_next most_recent_version ''roll_major'' of
           Inl e \<Rightarrow> (Inl e, w)
         | Inr n0 \<Rightarrow>
        (case Version_next most_recent_version ''roll_minor'' of
           Inl e \<Rightarrow> (Inl e, w)
         | Inr n1 \<Rightarrow>
        (case Version_next most_recent_version ''roll_build'' of
           Inl e \<Rightarrow> (Inl e, w)
         | Inr n2 \<Rightarrow>
             if Version_gt head_version most_recent_version
                \<and> \<not> version_in head_version [n0, n1, n2]
             then
               (Inl (VersionTagError 5
                  (''You skipped a release version, the next version should be either ''
                   @ Version_str n0 @ '', '' @ Version_str n1 @ '', or '' @ Version_str n2
                   @ ''.'')), w)
             else (Inr (), w))))
      else
        (case Version_next most_recent_version ''roll_minor'' of
           Inl e \<Rightarrow> (Inl e, w)
         | Inr n0 \<Rightarrow>
        (case Version_next most_recent_version ''roll_build'' of
           Inl e \<Rightarrow> (Inl e, w)
         | Inr n1 \<Rightarrow>
             if \<not> version_in head_version [n0, n1] then
               (Inl (VersionTagError 5
                  (''You skipped a test version, the next version should be either ''
                   @ Version_str n0 @ '' or '' @ Version_str n1 @ ''.'')), w)
             else (Inr (), w))))"

fun check_tag_is_lightweight :: "env \<Rightarrow> Version list \<Rightarrow> world \<Rightarrow> (error + unit) \<times> world" where
  "check_tag_is_lightweight e [] w = (Inr (), w)"
| "check_tag_is_lightweight e (head_version # rest) w =
     (case run_git_cmd e
             (''for-each-ref --format=\"%(objecttype)\" refs/tags/''
              @ format_opt (tag_name head_version)) w of
        (Inl err, w') \<Rightarrow> (Inl err, w')
      | (Inr objecttype, w') \<Rightarrow>
          if strip objecttype = ''commit'' then
            (Inl (VersionTagError 4
               (''You assigned a lightweight tag ('' @ format_opt (tag_name head_version)
                @ '') to HEAD, you should use annotated tags (git tag -a)'')), w')
          else check_tag_is_lightweight e rest w')"

definition check_head_has_local_changes :: "string \<Rightarrow> string \<Rightarrow> error + unit" where
  "check_head_has_local_changes workingtree_has_changes index_has_changes =
     (if workingtree_has_changes \<noteq> [] then
        Inl (VersionTagError 2 ''HEAD is tagged but has local changes. This is not allowed.'')
      else if index_has_changes \<noteq> [] then
        Inl (VersionTagError 2 ''HEAD is tagged but has staged changes. This is not allowed.'')
      else Inr ())"

definition check_head_has_version_and_nonversion_tag ::
  "env \<Rightarrow> world \<Rightarrow> (error + unit) \<times> world" where
  "check_head_has_version_and_nonversion_tag e =
     and_then (run_git_cmd e ''tag --points-at HEAD'') (\<lambda>head_tags w.
       let non_version_tags =
             filter (\<lambda>head_tag. parse_version_tag head_tag = None) (splitlines head_tags)
       in
       if length non_version_tags > 0 then
         (Inr (),
          w\<lparr>warning_msgs := warning_msgs w @
             [''HEAD was tagged with both version and non-version tags. Was this the intent? The non-version tags are: ''
              @ env_repr e non_version_tags]\<rparr>)
       else (Inr (), w))"

section \<open>Output and orchestration\<close>

text \<open>
  The text \<open>write_version_file\<close> builds.  \<open>a or b\<close> on two strings is \<open>a\<close> when
  \<open>a\<close> is not empty and \<open>b\<close> otherwise, and a string counts as true when it is not
  empty; \<open>head_sha1[:12]\<close> is the first twelve characters.
\<close>

definition version_file_content :: "int \<Rightarrow> int \<Rightarrow> string \<Rightarrow> string \<Rightarrow> string \<Rightarrow> string" where
  "version_file_content major minor head_sha1 workingtree_has_changes index_has_changes =
     (let has_local_changes =
            (if workingtree_has_changes \<noteq> [] then workingtree_has_changes
             else index_has_changes)
      in
        ''//--------------------------------------------------------------------------------------------------\<newline>''
      @ ''// Notes:\<newline>''
      @ ''// This file is autogenerated by the Python script \"version_from_tag.py\" invoked during building.\<newline>''
      @ ''// Do not edit this file as changes will be overwritten during building.\<newline>''
      @ ''//--------------------------------------------------------------------------------------------------\<newline>''
      @ ''#ifndef _SWPACKAGEVERSION_H_\<newline>''
      @ ''#define _SWPACKAGEVERSION_H_\<newline>''
      @ ''#define SW_VER_MAJOR '' @ format_d major @ ''\<newline>''
      @ ''#define SW_VER_MINOR '' @ format_d minor @ ''\<newline>''
      @ ''#define SW_REVISIONHASH \"''
          @ (if has_local_changes \<noteq> [] then ''+'' @ head_sha1 else take 12 head_sha1)
          @ ''\"\<newline>''
      @ ''#endif'')"

definition write_version_file ::
  "string \<Rightarrow> Version list option \<Rightarrow> string \<Rightarrow> string \<Rightarrow> string \<Rightarrow> world
     \<Rightarrow> (error + unit) \<times> world" where
  "write_version_file target_file head_versions head_sha1 workingtree_has_changes
       index_has_changes w =
     (case head_versions of
        None \<Rightarrow>
          (Inr (),
           w\<lparr>files := (files w)(target_file \<mapsto>
                version_file_content 90 0 head_sha1 workingtree_has_changes index_has_changes)\<rparr>)
      | Some hvs \<Rightarrow>
          (case first hvs of
             Inl e \<Rightarrow> (Inl e, w)
           | Inr h0 \<Rightarrow>
               (Inr (),
                w\<lparr>files := (files w)(target_file \<mapsto>
                     version_file_content (major_ver h0) (minor_ver h0) head_sha1
                       workingtree_has_changes index_has_changes)\<rparr>)))"

definition print_version_information ::
  "Version list \<Rightarrow> Version list option \<Rightarrow> string \<Rightarrow> world \<Rightarrow> (error + unit) \<times> world" where
  "print_version_information versions head_versions head_sha1 w =
     (case (case head_versions of
              None \<Rightarrow> Inr ''90.00.00''
            | Some hvs \<Rightarrow> (case first hvs of Inl e \<Rightarrow> Inl e | Inr h0 \<Rightarrow> Inr (Version_str h0))) of
        Inl e \<Rightarrow> (Inl e, w)
      | Inr head_version_str \<Rightarrow>
          (Inr (),
           w\<lparr>stdout := stdout w @
              [''############################################################\<newline>''
               @ ''Software version info.\<newline>''
               @ ''Building commit '' @ take 12 head_sha1 @ '', tagged with version ''
               @ head_version_str @ ''.\<newline>''
               @ ''############################################################'']\<rparr>))"

text \<open>
  \<open>check_head\<close>: the six checks, one after the other, when HEAD has a version; each
  of the first two reads \<open>head_versions[0]\<close>.
\<close>

definition check_head ::
  "env \<Rightarrow> Version list \<Rightarrow> Version list option \<Rightarrow> string \<Rightarrow> string \<Rightarrow> string \<Rightarrow> world
     \<Rightarrow> (error + unit) \<times> world" where
  "check_head e versions head_versions head_sha1 workingtree_has_changes index_has_changes =
     (case head_versions of
        None \<Rightarrow> pure_step (Inr ())
      | Some hvs \<Rightarrow>
          and_then (pure_step (first hvs)) (\<lambda>h0.
          and_then (pure_step (check_head_version_already_used h0 versions)) (\<lambda>u1.
          and_then (pure_step (first hvs)) (\<lambda>h0'.
          and_then (check_head_version_skipped_a_version h0' versions) (\<lambda>u2.
          and_then (check_tag_is_lightweight e hvs) (\<lambda>u3.
          and_then (pure_step (check_head_has_multiple_versions hvs)) (\<lambda>u4.
          and_then (pure_step (check_head_has_local_changes workingtree_has_changes
                                 index_has_changes)) (\<lambda>u5.
            check_head_has_version_and_nonversion_tag e))))))))"

text \<open>
  \<open>run\<close>.  It empties \<open>warning_msgs\<close>, reads the repository, and runs the checks and
  the two output steps inside \<open>try\<close>; a \<open>VersionTagError\<close> becomes the error code
  and message of the result, and any other exception leaves \<open>run\<close> (the left
  injection).  The result is \<open>(error_code, error_msg, warning_msgs)\<close>.
\<close>

definition run ::
  "env \<Rightarrow> string \<Rightarrow> world \<Rightarrow> (error + int \<times> string option \<times> string list) \<times> world" where
  "run e target_file w0 =
     (let w1 = w0\<lparr>warning_msgs := []\<rparr>;
          versions0 = env_versions e;
          head_sha1 = env_head_sha1 e
      in
      case get_head_versions versions0 head_sha1 of
        Inl err \<Rightarrow> (Inl err, w1)
      | Inr (head_versions, versions) \<Rightarrow>
          (case get_head_has_local_changes e w1 of
             (Inl err, w2) \<Rightarrow> (Inl err, w2)
           | (Inr (workingtree_changes, index_changes), w2) \<Rightarrow>
               (case and_then (check_head e versions head_versions head_sha1 workingtree_changes
                                 index_changes) (\<lambda>u1.
                     and_then (write_version_file target_file head_versions head_sha1
                                 workingtree_changes index_changes) (\<lambda>u2.
                       print_version_information versions head_versions head_sha1)) w2 of
                  (Inr u, w3) \<Rightarrow> (Inr (0, None, warning_msgs w3), w3)
                | (Inl (VersionTagError error_code error_msg), w3) \<Rightarrow>
                    (Inr (error_code, Some error_msg, warning_msgs w3), w3)
                | (Inl err, w3) \<Rightarrow> (Inl err, w3))))"

section \<open>Predicates used in the statements\<close>

text \<open>
  A version whose three numbers are the digits of its order key: the major number is
  the key divided by 10000, the minor number the next two decimal digits and the
  build number the last two.
\<close>

definition decomposed :: "Version \<Rightarrow> bool" where
  "decomposed n =
     (major_ver n = version n div 10000 \<and> minor_ver n = version n mod 10000 div 100 \<and>
      build_num n = version n mod 100)"

text \<open>
  The ranges the specification gives for the three numbers of a version; the tag
  pattern reads numbers in these ranges only.
\<close>

definition in_range :: "Version \<Rightarrow> bool" where
  "in_range v =
     (0 \<le> major_ver v \<and> 0 \<le> minor_ver v \<and> minor_ver v \<le> 99 \<and>
      0 \<le> build_num v \<and> build_num v \<le> 99)"

text \<open>The errors of the skip check, as functions of the valid next versions.\<close>

definition release_skip_error :: "Version \<Rightarrow> Version \<Rightarrow> Version \<Rightarrow> error" where
  "release_skip_error n0 n1 n2 =
     VersionTagError 5
       (''You skipped a release version, the next version should be either ''
        @ Version_str n0 @ '', '' @ Version_str n1 @ '', or '' @ Version_str n2 @ ''.'')"

definition test_skip_error :: "Version \<Rightarrow> Version \<Rightarrow> error" where
  "test_skip_error n0 n1 =
     VersionTagError 5
       (''You skipped a test version, the next version should be either ''
        @ Version_str n0 @ '' or '' @ Version_str n1 @ ''.'')"

text \<open>
  What the repository must answer for the checks after the skip check to pass
  silently: git reports an object type other than \<open>commit\<close> for the tag of every
  head version; both diffs are empty once stripped; and every tag that points at HEAD
  parses as a version tag.
\<close>

definition tags_annotated :: "env \<Rightarrow> Version list \<Rightarrow> bool" where
  "tags_annotated e hvs =
     list_all (\<lambda>v.
        case env_git e (''git for-each-ref --format=\"%(objecttype)\" refs/tags/''
                        @ format_opt (tag_name v)) of
          None \<Rightarrow> False
        | Some out \<Rightarrow> strip out \<noteq> ''commit'') hvs"

definition clean_tree :: "env \<Rightarrow> bool" where
  "clean_tree e =
     (case env_git e ''git diff'' of
        None \<Rightarrow> False
      | Some d1 \<Rightarrow>
          (case env_git e ''git diff --cached'' of
             None \<Rightarrow> False
           | Some d2 \<Rightarrow> strip d1 = [] \<and> strip d2 = []))"

definition no_stray_tags :: "env \<Rightarrow> bool" where
  "no_stray_tags e =
     (case env_git e ''git tag --points-at HEAD'' of
        None \<Rightarrow> False
      | Some head_tags \<Rightarrow>
          filter (\<lambda>head_tag. parse_version_tag head_tag = None) (splitlines head_tags) = [])"

section \<open>Properties of Version\<close>

lemma version_Version_init [simp]:
  "version (Version_init a b c d e f g) = a * 10000 + b * 100 + c"
  by (simp add: version_def Version_init_def)

lemma decompose_order_key:
  fixes k :: int
  shows "k div 10000 * 10000 + k mod 10000 div 100 * 100 + k mod 100 = k"
proof -
  have "k mod 10000 div 100 * 100 + k mod 10000 mod 100 = k mod 10000"
    by simp
  moreover have "k mod 10000 mod 100 = k mod 100"
    by (simp add: mod_mod_cancel)
  moreover have "k div 10000 * 10000 + k mod 10000 = k"
    by simp
  ultimately show ?thesis
    by linarith
qed

lemma Version_init_sel [simp]:
  "creatordate (Version_init a b c d e f g) = d"
  "sw_article_num (Version_init a b c d e f g) = e"
  "sha1 (Version_init a b c d e f g) = f"
  "major_ver (Version_init a b c d e f g) = a"
  "minor_ver (Version_init a b c d e f g) = b"
  "build_num (Version_init a b c d e f g) = c"
  "tag_name (Version_init a b c d e f g) = g"
  by (simp_all add: Version_init_def)

lemma Version_next_Inr:
  "next_ver_of v roll = Inr k \<Longrightarrow>
     \<exists>n. Version_next v roll = Inr n \<and> version n = k \<and> decomposed n"
  unfolding Version_next_def decomposed_def
  by (simp add: decompose_order_key)

lemma next_multiple:
  fixes k :: int
  assumes "0 < d"
  shows "d dvd (k + d - k mod d) \<and> k < k + d - k mod d \<and> k + d - k mod d \<le> k + d"
proof -
  have "k + d - k mod d = (k div d + 1) * d"
    by (simp add: algebra_simps minus_mod_eq_mult_div)
  then have "d dvd (k + d - k mod d)" by simp
  moreover have "k mod d < d" "0 \<le> k mod d" using assms by simp_all
  ultimately show ?thesis by linarith
qed

text \<open>
  Claim C5.  For every version \<open>v\<close> (in particular every one with in-range fields)
  each of the three rolls returns a version: \<open>roll_major\<close> gives the order key
  \<open>version v + 10000 - version v mod 10000\<close>, the next multiple of 10000 above the key
  of \<open>v\<close>; \<open>roll_minor\<close> the next multiple of 100; \<open>roll_build\<close> the key plus one.
  The three numbers of the result are the digits of the new key, so a carry runs
  through the flat integer: \<open>Version(1,99,99).next("roll_build")\<close> has key 20000 and
  is 2.00.00.
\<close>

theorem Version_next_carries:
  "\<exists>n0 n1 n2.
     Version_next v ''roll_major'' = Inr n0 \<and>
     Version_next v ''roll_minor'' = Inr n1 \<and>
     Version_next v ''roll_build'' = Inr n2 \<and>
     version n0 = version v + 10000 - version v mod 10000 \<and>
     10000 dvd version n0 \<and> version v < version n0 \<and> version n0 \<le> version v + 10000 \<and>
     version n1 = version v + 100 - version v mod 100 \<and>
     100 dvd version n1 \<and> version v < version n1 \<and> version n1 \<le> version v + 100 \<and>
     version n2 = version v + 1 \<and>
     decomposed n0 \<and> decomposed n1 \<and> decomposed n2 \<and>
     Version_next (Version_init 1 99 99 None None None None) ''roll_build''
       = Inr (Version_init 2 0 0 None None None None) \<and>
     version (Version_init 2 0 0 None None None None) = 20000"
proof -
  obtain n0 where n0: "Version_next v ''roll_major'' = Inr n0"
      "version n0 = version v + 10000 - version v mod 10000" "decomposed n0"
    using Version_next_Inr[of v "''roll_major''"] by (auto simp: next_ver_of_def)
  obtain n1 where n1: "Version_next v ''roll_minor'' = Inr n1"
      "version n1 = version v + 100 - version v mod 100" "decomposed n1"
    using Version_next_Inr[of v "''roll_minor''"] by (auto simp: next_ver_of_def)
  obtain n2 where n2: "Version_next v ''roll_build'' = Inr n2"
      "version n2 = version v + 1" "decomposed n2"
    using Version_next_Inr[of v "''roll_build''"] by (auto simp: next_ver_of_def)
  have ex: "Version_next (Version_init 1 99 99 None None None None) ''roll_build''
       = Inr (Version_init 2 0 0 None None None None)"
    by (simp add: Version_next_def next_ver_of_def)
  show ?thesis
    using n0 n1 n2 ex next_multiple[of 10000 "version v"] next_multiple[of 100 "version v"]
    by (intro exI[of _ n0] exI[of _ n1] exI[of _ n2]) simp
qed

section \<open>The comparison operators\<close>

lemma comparisons_by_order_key:
  "Version_eq a b = (version a = version b)"
  "Version_lt a b = (version a < version b)"
  "Version_gt a b = (version a > version b)"
  "Version_le a b = (version a \<le> version b)"
  "Version_ne a b = (version a \<noteq> version b)"
  by (simp_all add: Version_eq_def Version_lt_def Version_gt_def Version_le_def Version_ne_def)

lemma comparisons_trichotomy:
  "(Version_lt a b \<and> \<not> Version_eq a b \<and> \<not> Version_gt a b) \<or>
   (\<not> Version_lt a b \<and> Version_eq a b \<and> \<not> Version_gt a b) \<or>
   (\<not> Version_lt a b \<and> \<not> Version_eq a b \<and> Version_gt a b)"
  by (auto simp: comparisons_by_order_key)

lemma Version_lt_trans: "Version_lt a b \<Longrightarrow> Version_lt b c \<Longrightarrow> Version_lt a c"
  by (simp add: comparisons_by_order_key)

text \<open>
  Claim C4 says that each of the six operators, \<open>>=\<close> among them, returns the
  comparison of the two order keys.  Five do (the lemmas above); \<open>a >= b\<close> raises
  \<open>AttributeError\<close> for every pair of versions, here for 1.00.00 against itself, and
  so never returns the comparison of the keys.
\<close>

theorem Version_ge_raises:
  "Version_ge (Version_init 1 0 0 None None None None) (Version_init 1 0 0 None None None None)
     = Inl AttributeError \<and>
   (\<forall>a b. Version_ge a b \<noteq> Inr (version a \<ge> version b))"
  by (simp add: Version_ge_def)

section \<open>The boundary between release and test versions\<close>

lemma most_recent_loop_skips:
  "\<not> truthy (Version_is_kind v k) \<Longrightarrow>
     most_recent_loop k m (xs @ v # ys) = most_recent_loop k m (xs @ ys)"
  by (induction xs arbitrary: m) simp_all

text \<open>
  Claim C10.  A version whose order key is exactly 900000 has kind \<open>test\<close>, while
  \<open>is_kind("test")\<close> and \<open>is_kind("release")\<close> both return \<open>False\<close>.  So the search
  of the skip check for the most recent version of the head's kind passes over such a
  historical version, also for a head of kind \<open>test\<close>: the search, and with it the
  whole check, gives the same result with the version in the history and without it.
\<close>

theorem boundary_version_has_no_kind:
  assumes "version v = 900000"
  shows "Version_kind v = ''test'' \<and>
         Version_is_kind v ''test'' = Some False \<and> \<not> truthy (Version_is_kind v ''test'') \<and>
         Version_is_kind v ''release'' = Some False \<and> \<not> truthy (Version_is_kind v ''release'') \<and>
         (\<forall>m xs ys. most_recent_loop ''test'' m (xs @ v # ys) = most_recent_loop ''test'' m (xs @ ys)) \<and>
         (\<forall>h xs ys w. Version_kind h = ''test'' \<longrightarrow>
            check_head_version_skipped_a_version h (xs @ v # ys) w
              = check_head_version_skipped_a_version h (xs @ ys) w)"
proof -
  have k: "Version_is_kind v ''test'' = Some False" "Version_is_kind v ''release'' = Some False"
    using assms by (simp_all add: Version_is_kind_def first_test_version_def)
  then have nt: "\<not> truthy (Version_is_kind v ''test'')"  "\<not> truthy (Version_is_kind v ''release'')"
    by (simp_all add: truthy_def)
  have "Version_kind v = ''test''"
    using assms by (simp add: Version_kind_def first_test_version_def)
  moreover have "\<forall>h xs ys w. Version_kind h = ''test'' \<longrightarrow>
            check_head_version_skipped_a_version h (xs @ v # ys) w
              = check_head_version_skipped_a_version h (xs @ ys) w"
    using nt by (simp add: check_head_version_skipped_a_version_def most_recent_loop_skips)
  ultimately show ?thesis
    using k nt by (simp add: most_recent_loop_skips)
qed

theorem boundary_version_has_no_kind_witness:
  "version (Version_init 90 0 0 None None None None) = 900000 \<and>
   Version_kind (Version_init 90 0 0 None None None None) = ''test'' \<and>
   Version_is_kind (Version_init 90 0 0 None None None None) ''test'' = Some False \<and>
   Version_is_kind (Version_init 90 0 0 None None None None) ''release'' = Some False \<and>
   most_recent_loop ''test'' (Version_init 0 0 0 None None None None)
       [Version_init 90 0 0 None None None None]
     = Version_init 0 0 0 None None None None \<and>
   fst (check_head_version_skipped_a_version (Version_init 90 0 1 None None None None)
       [Version_init 90 0 0 None None None None]
       \<lparr>warning_msgs = [], git_calls = [], files = Map.empty, stdout = []\<rparr>)
     = Inl (VersionTagError 5
         ''You skipped a test version, the next version should be either 0.01.00 or 0.00.01.'')"
proof -
  let ?v = "Version_init 90 0 0 None None None None"
  let ?h = "Version_init 90 0 1 None None None None"
  let ?w = "\<lparr>warning_msgs = [], git_calls = [], files = Map.empty, stdout = []\<rparr>"
  have v: "version ?v = 900000" by simp
  note b = boundary_version_has_no_kind[OF v]
  have loop: "most_recent_loop ''test'' (Version_init 0 0 0 None None None None) ([] @ ?v # [])
       = most_recent_loop ''test'' (Version_init 0 0 0 None None None None) ([] @ [])"
    using b by blast
  have "Version_kind ?h = ''test''"
    by (simp add: Version_kind_def first_test_version_def)
  with b have "check_head_version_skipped_a_version ?h ([] @ ?v # []) ?w
     = check_head_version_skipped_a_version ?h ([] @ []) ?w"
    by blast
  moreover have "fst (check_head_version_skipped_a_version ?h [] ?w)
     = Inl (VersionTagError 5
         ''You skipped a test version, the next version should be either 0.01.00 or 0.00.01.'')"
    by code_simp
  ultimately show ?thesis using v b loop by simp
qed

section \<open>The duplicate check\<close>

lemma check_head_version_already_used_result:
  "check_head_version_already_used h prevs =
     (if \<exists>p \<in> set prevs. version p = version h
      then Inl (VersionTagError 1 (''The version '' @ Version_str h @ '' has already been used''))
      else Inr ())"
  by (induction prevs) (auto simp: Version_eq_def)

text \<open>
  Claim C2.  The duplicate check raises \<open>VersionTagError\<close> with code 1 exactly when
  some historical version has the order key of the head version, and returns
  normally otherwise.  Only the order key counts: a historical version with the same
  three numbers makes the check fail whatever its tag name, article number or commit.
\<close>

theorem duplicate_check_by_order_key:
  "((\<exists>msg. check_head_version_already_used h prevs = Inl (VersionTagError 1 msg))
      \<longleftrightarrow> (\<exists>p \<in> set prevs. version p = version h)) \<and>
   ((\<exists>p \<in> set prevs. version p = version h) \<longrightarrow>
      check_head_version_already_used h prevs
        = Inl (VersionTagError 1 (''The version '' @ Version_str h @ '' has already been used''))) \<and>
   (\<not> (\<exists>p \<in> set prevs. version p = version h) \<longrightarrow>
      check_head_version_already_used h prevs = Inr ()) \<and>
   (\<forall>p. p \<in> set prevs \<and> major_ver p = major_ver h \<and> minor_ver p = minor_ver h \<and>
        build_num p = build_num h \<longrightarrow>
      (\<exists>msg. check_head_version_already_used h prevs = Inl (VersionTagError 1 msg)))"
  by (auto simp: check_head_version_already_used_result version_def)

theorem duplicate_check_by_order_key_witness:
  "version (Version_init 1 0 0 None (Some 10006000) (Some ''c1'') (Some ''10006000/V1_00_00''))
     = version (Version_init 1 0 0 None (Some 10006001) (Some ''c2'') (Some ''10006001/V1_00_00'')) \<and>
   tag_name (Version_init 1 0 0 None (Some 10006000) (Some ''c1'') (Some ''10006000/V1_00_00''))
     \<noteq> tag_name (Version_init 1 0 0 None (Some 10006001) (Some ''c2'') (Some ''10006001/V1_00_00'')) \<and>
   check_head_version_already_used
       (Version_init 1 0 0 None (Some 10006001) (Some ''c2'') (Some ''10006001/V1_00_00''))
       [Version_init 1 0 0 None (Some 10006000) (Some ''c1'') (Some ''10006000/V1_00_00'')]
     = Inl (VersionTagError 1 ''The version 1.00.00 has already been used'') \<and>
   check_head_version_already_used
       (Version_init 1 0 1 None (Some 10006001) (Some ''c2'') (Some ''10006001/V1_00_01''))
       [Version_init 1 0 0 None (Some 10006000) (Some ''c1'') (Some ''10006000/V1_00_00'')]
     = Inr ()"
proof -
  let ?p = "Version_init 1 0 0 None (Some 10006000) (Some ''c1'') (Some ''10006000/V1_00_00'')"
  let ?h = "Version_init 1 0 0 None (Some 10006001) (Some ''c2'') (Some ''10006001/V1_00_00'')"
  let ?h' = "Version_init 1 0 1 None (Some 10006001) (Some ''c2'') (Some ''10006001/V1_00_01'')"
  have s: "Version_str ?h = ''1.00.00''" by code_simp
  have "\<exists>p \<in> set [?p]. version p = version ?h" by simp
  with duplicate_check_by_order_key[of ?h "[?p]"]
  have 1: "check_head_version_already_used ?h [?p]
        = Inl (VersionTagError 1 (''The version '' @ Version_str ?h @ '' has already been used''))"
    by blast
  have "\<not> (\<exists>p \<in> set [?p]. version p = version ?h')" by simp
  with duplicate_check_by_order_key[of ?h' "[?p]"]
  have 2: "check_head_version_already_used ?h' [?p] = Inr ()"
    by blast
  show ?thesis using 1 2 s by simp
qed

section \<open>The versions on HEAD and the historical versions\<close>

text \<open>
  Claim C7 says that \<open>get_head_versions\<close> leaves in the list exactly the versions
  whose commit differs from HEAD.  The head versions are taken out with
  \<open>versions.remove\<close>, which deletes the first item that is equal by order key: with
  a historical version 1.00.00 listed before a head version 1.00.00 (the tags
  \<open>10006000/V1_00_00\<close> on an older commit and \<open>10006001/V1_00_00\<close> on HEAD), the
  historical version is deleted and the head version stays in the list.
\<close>

theorem get_head_versions_removes_by_order_key:
  "get_head_versions
     [Version_init 1 0 0 None (Some 10006000) (Some ''old'') (Some ''10006000/V1_00_00''),
      Version_init 1 0 0 None (Some 10006001) (Some ''head'') (Some ''10006001/V1_00_00'')]
     ''head''
   = Inr (Some [Version_init 1 0 0 None (Some 10006001) (Some ''head'') (Some ''10006001/V1_00_00'')],
          [Version_init 1 0 0 None (Some 10006001) (Some ''head'') (Some ''10006001/V1_00_00'')])"
  by (simp add: get_head_versions_def Version_eq_def Let_def)

text \<open>
  Where the claim does hold: with no version on HEAD the result is \<open>None\<close> and the
  list is unchanged, and when no two versions of the list share an order key the list
  is split as the claim says, each part in its original order.
\<close>

lemma get_head_versions_None:
  "(\<forall>v \<in> set versions. sha1 v \<noteq> Some head) \<Longrightarrow>
     get_head_versions versions head = Inr (None, versions)"
  by (simp add: get_head_versions_def filter_empty_conv)

lemma list_remove_distinct:
  "distinct (map version vs) \<Longrightarrow> x \<in> set vs \<Longrightarrow>
     list_remove x vs = Inr (filter (\<lambda>v. v \<noteq> x) vs)"
proof (induction vs)
  case Nil then show ?case by simp
next
  case (Cons y ys)
  show ?case
  proof (cases "y = x")
    case True
    with Cons.prems have "x \<notin> set ys" by auto
    then have "filter (\<lambda>v. v \<noteq> x) ys = ys" by (auto simp: filter_id_conv)
    with True show ?thesis by (simp add: Version_eq_def)
  next
    case False
    with Cons.prems have "x \<in> set ys" "version y \<noteq> version x" by auto
    with Cons False show ?thesis by (simp add: Version_eq_def)
  qed
qed

lemma remove_each_distinct:
  "distinct (map version vs) \<Longrightarrow> set hs \<subseteq> set vs \<Longrightarrow> distinct hs \<Longrightarrow>
     remove_each hs vs = Inr (filter (\<lambda>v. v \<notin> set hs) vs)"
proof (induction hs arbitrary: vs)
  case Nil then show ?case by simp
next
  case (Cons h hs)
  have r: "list_remove h vs = Inr (filter (\<lambda>v. v \<noteq> h) vs)"
    using Cons.prems by (simp add: list_remove_distinct)
  have d: "distinct (map version (filter (\<lambda>v. v \<noteq> h) vs))"
    using Cons.prems(1) by (simp add: distinct_map_filter)
  have s: "set hs \<subseteq> set (filter (\<lambda>v. v \<noteq> h) vs)"
    using Cons.prems by auto
  have "remove_each hs (filter (\<lambda>v. v \<noteq> h) vs)
      = Inr (filter (\<lambda>v. v \<notin> set hs) (filter (\<lambda>v. v \<noteq> h) vs))"
    using Cons.IH[OF d s] Cons.prems by simp
  moreover have "filter (\<lambda>v. v \<notin> set hs) (filter (\<lambda>v. v \<noteq> h) vs)
      = filter (\<lambda>v. v \<notin> set (h # hs)) vs"
    by (induction vs) auto
  ultimately show ?case using r by simp
qed

lemma get_head_versions_partition_distinct:
  assumes "distinct (map version versions)"
  shows "get_head_versions versions head =
     Inr (if filter (\<lambda>v. sha1 v = Some head) versions = [] then None
          else Some (filter (\<lambda>v. sha1 v = Some head) versions),
          filter (\<lambda>v. sha1 v \<noteq> Some head) versions)"
proof -
  let ?hs = "filter (\<lambda>v. sha1 v = Some head) versions"
  have dv: "distinct versions" using assms by (simp add: distinct_map)
  have "remove_each ?hs versions = Inr (filter (\<lambda>v. v \<notin> set ?hs) versions)"
    using assms dv by (intro remove_each_distinct) auto
  moreover have "filter (\<lambda>v. v \<notin> set ?hs) versions = filter (\<lambda>v. sha1 v \<noteq> Some head) versions"
    by (rule filter_cong) auto
  moreover have "?hs = [] \<Longrightarrow> filter (\<lambda>v. sha1 v \<noteq> Some head) versions = versions"
    by (simp add: filter_empty_conv filter_id_conv)
  ultimately show ?thesis
    by (auto simp: get_head_versions_def Let_def)
qed

section \<open>The generated header\<close>

text \<open>\<open>format_d\<close> writes the decimal numeral: reading its digits gives the number back.\<close>

lemma int_of_digits_snoc:
  "int_of_digits (s @ [c]) = 10 * int_of_digits s + (int (of_char c) - 48)"
  by (simp add: int_of_digits_def)

lemma digit_char_value:
  "k < 10 \<Longrightarrow> int (of_char (''0123456789'' ! k)) - 48 = int k"
proof -
  assume "k < 10"
  then have "k \<in> {0,1,2,3,4,5,6,7,8,9}" by auto
  then show ?thesis by auto
qed

lemma int_of_digits_digits_of_nat: "int_of_digits (digits_of_nat n) = int n"
proof (induction n rule: digits_of_nat.induct)
  case (1 n)
  show ?case
  proof (cases "n < 10")
    case True
    then show ?thesis
      by (subst digits_of_nat.simps) (simp add: int_of_digits_def digit_char_value)
  next
    case False
    with 1 have "int_of_digits (digits_of_nat (n div 10)) = int (n div 10)" by simp
    moreover have "10 * int (n div 10) + int (n mod 10) = int n"
      by (metis mult_div_mod_eq of_nat_add of_nat_mult of_nat_numeral)
    ultimately show ?thesis using False
      by (subst digits_of_nat.simps) (simp add: int_of_digits_snoc digit_char_value)
  qed
qed

lemma format_d_decimal: "0 \<le> i \<Longrightarrow> int_of_digits (format_d i) = i"
  by (simp add: format_d_def int_of_digits_digits_of_nat)

text \<open>
  Claim C9.  When it succeeds (HEAD has no version, or the list of head versions is not
  empty) \<open>write_version_file\<close> stores under the target name exactly this text: the
  five lines of the banner, the two guard lines, \<open>#define SW_VER_MAJOR\<close> and
  \<open>#define SW_VER_MINOR\<close> with the major and minor number of the first head version in
  decimal (90 and 0 when HEAD has no version), \<open>#define SW_REVISIONHASH\<close> with, in
  double quotes, the first twelve characters of the commit id when working tree and
  index are both clean and \<open>+\<close> followed by the whole commit id when either is
  dirty, and a closing \<open>#endif\<close> without a line end.  The witness is the header for
  head version 2.01.00 on a clean tree, and the header of an untagged dirty tree.
\<close>

theorem write_version_file_header:
  assumes "head_versions = None \<or> head_versions = Some (h0 # rest)"
  shows "write_version_file target_file head_versions head_sha1 wt idx w =
     (Inr (),
      w\<lparr>files := (files w)(target_file \<mapsto>
         concat (map (\<lambda>line. line @ ''\<newline>'')
           [''//--------------------------------------------------------------------------------------------------'',
            ''// Notes:'',
            ''// This file is autogenerated by the Python script \"version_from_tag.py\" invoked during building.'',
            ''// Do not edit this file as changes will be overwritten during building.'',
            ''//--------------------------------------------------------------------------------------------------'',
            ''#ifndef _SWPACKAGEVERSION_H_'',
            ''#define _SWPACKAGEVERSION_H_'',
            ''#define SW_VER_MAJOR '' @ format_d (if head_versions = None then 90 else major_ver h0),
            ''#define SW_VER_MINOR '' @ format_d (if head_versions = None then 0 else minor_ver h0),
            ''#define SW_REVISIONHASH \"''
              @ (if wt = [] \<and> idx = [] then take 12 head_sha1 else ''+'' @ head_sha1) @ ''\"''])
         @ ''#endif'')\<rparr>)"
  using assms
  by (auto simp: write_version_file_def version_file_content_def first_def)

theorem write_version_file_header_witness:
  "files (snd (write_version_file ''SwPackageVersion.h''
        (Some [Version_init 2 1 0 None (Some 10006000) (Some ''abc123abc123def456def456def456def456def4'')
                 (Some ''10006000/V2_01_00'')])
        ''abc123abc123def456def456def456def456def4'' [] []
        \<lparr>warning_msgs = [], git_calls = [], files = Map.empty, stdout = []\<rparr>))
     ''SwPackageVersion.h''
   = Some (
       ''//--------------------------------------------------------------------------------------------------\<newline>''
     @ ''// Notes:\<newline>''
     @ ''// This file is autogenerated by the Python script \"version_from_tag.py\" invoked during building.\<newline>''
     @ ''// Do not edit this file as changes will be overwritten during building.\<newline>''
     @ ''//--------------------------------------------------------------------------------------------------\<newline>''
     @ ''#ifndef _SWPACKAGEVERSION_H_\<newline>''
     @ ''#define _SWPACKAGEVERSION_H_\<newline>''
     @ ''#define SW_VER_MAJOR 2\<newline>''
     @ ''#define SW_VER_MINOR 1\<newline>''
     @ ''#define SW_REVISIONHASH \"abc123abc123\"\<newline>''
     @ ''#endif'') \<and>
   files (snd (write_version_file ''SwPackageVersion.h'' None
        ''abc123abc123def456def456def456def456def4'' ''diff --git a/f b/f'' []
        \<lparr>warning_msgs = [], git_calls = [], files = Map.empty, stdout = []\<rparr>))
     ''SwPackageVersion.h''
   = Some (
       ''//--------------------------------------------------------------------------------------------------\<newline>''
     @ ''// Notes:\<newline>''
     @ ''// This file is autogenerated by the Python script \"version_from_tag.py\" invoked during building.\<newline>''
     @ ''// Do not edit this file as changes will be overwritten during building.\<newline>''
     @ ''//--------------------------------------------------------------------------------------------------\<newline>''
     @ ''#ifndef _SWPACKAGEVERSION_H_\<newline>''
     @ ''#define _SWPACKAGEVERSION_H_\<newline>''
     @ ''#define SW_VER_MAJOR 90\<newline>''
     @ ''#define SW_VER_MINOR 0\<newline>''
     @ ''#define SW_REVISIONHASH \"+abc123abc123def456def456def456def456def4\"\<newline>''
     @ ''#endif'')"
proof -
  have d: "format_d 2 = ''2''" "format_d 1 = ''1''" "format_d 90 = ''90''" "format_d 0 = ''0''"
    by code_simp+
  let ?w = "\<lparr>warning_msgs = [], git_calls = [], files = Map.empty, stdout = []\<rparr>"
  let ?h = "Version_init 2 1 0 None (Some 10006000) (Some ''abc123abc123def456def456def456def456def4'')
                 (Some ''10006000/V2_01_00'')"
  have 1: "Some [?h] = None \<or> Some [?h] = Some (?h # [])" by simp
  have 2: "(None :: Version list option) = None \<or> None = Some (?h # [])" by simp
  show ?thesis
    using write_version_file_header[OF 1, of "''SwPackageVersion.h''" "''abc123abc123def456def456def456def456def4''" "[]" "[]" ?w]
      write_version_file_header[OF 2, of "''SwPackageVersion.h''" "''abc123abc123def456def456def456def456def4''" "''diff --git a/f b/f''" "[]" ?w]
    by (simp add: d)
qed

section \<open>Parsing a tag\<close>

text \<open>
  Every way the pattern matches reads, from the start of the tag, a text of the shape
  the specification describes; what follows that text is left over.
\<close>

lemma m_lit_sound: "(a, r) \<in> set (m_lit l s) \<Longrightarrow> a = l \<and> s = l @ r"
  by (auto simp: m_lit_def split: if_splits) (metis append_take_drop_id)

lemma m_class_sound: "(a, r) \<in> set (m_class P s) \<Longrightarrow> \<exists>c. a = [c] \<and> P c \<and> s = c # r"
  by (auto simp: m_class_def split: list.splits if_splits)

lemma m_seq_set:
  "(a, r) \<in> set (m_seq p q s) \<longleftrightarrow>
     (\<exists>a1 r1 a2. (a1, r1) \<in> set (p s) \<and> (a2, r) \<in> set (q r1) \<and> a = a1 @ a2)"
  by (auto simp: m_seq_def) force

lemma m_rep_class_sound:
  "(a, r) \<in> set (m_rep n (m_class P) s) \<Longrightarrow> length a = n \<and> list_all P a \<and> s = a @ r"
proof (induction n arbitrary: a s)
  case 0
  then show ?case by simp
next
  case (Suc n)
  from Suc.prems have "(a, r) \<in> set (m_seq (m_class P) (m_rep n (m_class P)) s)" by simp
  from m_seq_set[THEN iffD1, OF this] obtain a1 r1 a2 where
    1: "(a1, r1) \<in> set (m_class P s)" and 2: "(a2, r) \<in> set (m_rep n (m_class P) r1)"
    and a: "a = a1 @ a2"
    by blast
  from 1 obtain c where c: "a1 = [c]" "P c" "s = c # r1" using m_class_sound by blast
  from Suc.IH[OF 2] c a show ?case by simp
qed

lemma major_sound:
  assumes "(a, r) \<in> set (m_seq (m_opt (m_class nonzero_digit)) (m_rep 1 (m_class digit)) s)"
  shows "(length a = 1 \<or> length a = 2) \<and> list_all digit a \<and> s = a @ r"
proof -
  from m_seq_set[THEN iffD1, OF assms] obtain a1 r1 a2 where
    1: "(a1, r1) \<in> set (m_opt (m_class nonzero_digit) s)"
    and 2: "(a2, r) \<in> set (m_rep 1 (m_class digit) r1)" and a: "a = a1 @ a2"
    by blast
  from m_rep_class_sound[OF 2] have 3: "length a2 = 1" "list_all digit a2" "r1 = a2 @ r" by simp_all
  from 1 have "(a1 = [] \<and> r1 = s) \<or> (a1, r1) \<in> set (m_class nonzero_digit s)"
    by (auto simp: m_opt_def)
  then show ?thesis
  proof
    assume "a1 = [] \<and> r1 = s"
    with 3 a show ?thesis by simp
  next
    assume "(a1, r1) \<in> set (m_class nonzero_digit s)"
    then obtain c where "a1 = [c]" "nonzero_digit c" "s = c # r1" using m_class_sound by blast
    moreover from this have "digit c" by (auto simp: digit_def nonzero_digit_def)
    ultimately show ?thesis using 3 a by simp
  qed
qed

lemma build_sound:
  assumes "(a, r) \<in> set (m_seq (m_lit ''_'') (m_seq (m_class digit) (m_class digit)) s)"
  shows "\<exists>b. a = ''_'' @ b \<and> length b = 2 \<and> list_all digit b \<and> s = a @ r"
proof -
  from m_seq_set[THEN iffD1, OF assms] obtain a1 r1 a2 where
    1: "(a1, r1) \<in> set (m_lit ''_'' s)"
    and 2: "(a2, r) \<in> set (m_seq (m_class digit) (m_class digit) r1)" and a: "a = a1 @ a2"
    by blast
  from m_seq_set[THEN iffD1, OF 2] obtain b1 r2 b2 where
    3: "(b1, r2) \<in> set (m_class digit r1)" and 4: "(b2, r) \<in> set (m_class digit r2)"
    and b: "a2 = b1 @ b2"
    by blast
  from m_class_sound[OF 3] m_class_sound[OF 4] m_lit_sound[OF 1] a b
  show ?thesis by auto
qed

lemma product_code_sound:
  assumes "(a, r) \<in> set (m_seq (m_lit ''1000'') (m_rep 4 (m_class digit)) s)"
  shows "\<exists>d. a = ''1000'' @ d \<and> length d = 4 \<and> list_all digit d \<and> s = a @ r"
proof -
  from m_seq_set[THEN iffD1, OF assms] obtain a1 r1 a2 where
    1: "(a1, r1) \<in> set (m_lit ''1000'' s)"
    and 2: "(a2, r) \<in> set (m_rep 4 (m_class digit) r1)" and a: "a = a1 @ a2"
    by blast
  from m_lit_sound[OF 1] m_rep_class_sound[OF 2] a show ?thesis by auto
qed

lemma concat_map_pair_mem:
  "x \<in> set (concat (map (case_prod f) xs)) \<longleftrightarrow> (\<exists>a b. (a, b) \<in> set xs \<and> x \<in> set (f a b))"
  by auto

lemma version_tag_regex_mem:
  assumes "((g1, g2, g3, g4, g5), r) \<in> set (version_tag_regex s)"
  shows "\<exists>r1 sl r2 r3 us r4 r5.
    (g1, r1) \<in> set (m_seq (m_lit ''1000'') (m_rep 4 (m_class digit)) s) \<and>
    (sl, r2) \<in> set (m_lit ''/V'' r1) \<and>
    (g2, r3) \<in> set (m_seq (m_opt (m_class nonzero_digit)) (m_rep 1 (m_class digit)) r2) \<and>
    (us, r4) \<in> set (m_lit ''_'' r3) \<and>
    (g3, r5) \<in> set (m_rep 2 (m_class digit) r4) \<and>
    ((\<exists>t. (t, r) \<in> set (m_seq (m_lit ''_'') (m_seq (m_class digit) (m_class digit)) r5))
        \<or> r = r5)"
proof -
  from assms obtain a1 r1 a2 r2 a3 r3 a4 r4 a5 r5 where
    1: "(a1, r1) \<in> set (m_seq (m_lit ''1000'') (m_rep 4 (m_class digit)) s)" and
    2: "(a2, r2) \<in> set (m_lit ''/V'' r1)" and
    3: "(a3, r3) \<in> set (m_seq (m_opt (m_class nonzero_digit)) (m_rep 1 (m_class digit)) r2)" and
    4: "(a4, r4) \<in> set (m_lit ''_'' r3)" and
    5: "(a5, r5) \<in> set (m_rep 2 (m_class digit) r4)" and
    6: "((g1, g2, g3, g4, g5), r) \<in> set (map (\<lambda>(g4, r6). ((a1, a3, a5, Some g4, Some (drop 1 g4)), r6))
         (m_seq (m_lit ''_'') (m_seq (m_class digit) (m_class digit)) r5)
       @ [((a1, a3, a5, None, None), r5)])"
    unfolding version_tag_regex_def concat_map_pair_mem by blast
  from 6 have g: "g1 = a1" "g2 = a3" "g3 = a5"
    and t: "(\<exists>t. (t, r) \<in> set (m_seq (m_lit ''_'') (m_seq (m_class digit) (m_class digit)) r5))
        \<or> r = r5"
    by auto
  with 1 2 3 4 5 show ?thesis by blast
qed

lemma version_tag_regex_sound:
  assumes "((g1, g2, g3, g4, g5), r) \<in> set (version_tag_regex s)"
  shows "\<exists>d t. g1 = ''1000'' @ d \<and> length d = 4 \<and> list_all digit d \<and>
           (length g2 = 1 \<or> length g2 = 2) \<and> list_all digit g2 \<and>
           length g3 = 2 \<and> list_all digit g3 \<and>
           (t = [] \<or> (\<exists>b. t = ''_'' @ b \<and> length b = 2 \<and> list_all digit b)) \<and>
           s = g1 @ ''/V'' @ g2 @ ''_'' @ g3 @ t @ r"
proof -
  from version_tag_regex_mem[OF assms] obtain r1 sl r2 r3 us r4 r5 where
    1: "(g1, r1) \<in> set (m_seq (m_lit ''1000'') (m_rep 4 (m_class digit)) s)" and
    2: "(sl, r2) \<in> set (m_lit ''/V'' r1)" and
    3: "(g2, r3) \<in> set (m_seq (m_opt (m_class nonzero_digit)) (m_rep 1 (m_class digit)) r2)" and
    4: "(us, r4) \<in> set (m_lit ''_'' r3)" and
    5: "(g3, r5) \<in> set (m_rep 2 (m_class digit) r4)" and
    6: "(\<exists>t. (t, r) \<in> set (m_seq (m_lit ''_'') (m_seq (m_class digit) (m_class digit)) r5))
        \<or> r = r5"
    by blast
  from product_code_sound[OF 1] obtain d where
    d: "g1 = ''1000'' @ d" "length d = 4" "list_all digit d" "s = g1 @ r1" by blast
  from m_lit_sound[OF 2] have r1: "r1 = ''/V'' @ r2" by simp
  from major_sound[OF 3] have g2: "length g2 = 1 \<or> length g2 = 2" "list_all digit g2" "r2 = g2 @ r3"
    by simp_all
  from m_lit_sound[OF 4] have r3: "r3 = ''_'' @ r4" by simp
  from m_rep_class_sound[OF 5] have g3: "length g3 = 2" "list_all digit g3" "r4 = g3 @ r5"
    by simp_all
  have "\<exists>t. (t = [] \<or> (\<exists>b. t = ''_'' @ b \<and> length b = 2 \<and> list_all digit b)) \<and> r5 = t @ r"
    using 6
  proof
    assume "\<exists>t. (t, r) \<in> set (m_seq (m_lit ''_'') (m_seq (m_class digit) (m_class digit)) r5)"
    then obtain t where "(t, r) \<in> set (m_seq (m_lit ''_'') (m_seq (m_class digit) (m_class digit)) r5)"
      by blast
    from build_sound[OF this] show ?thesis by blast
  next
    assume "r = r5"
    then show ?thesis by (intro exI[of _ "[]"]) simp
  qed
  then obtain t where t: "t = [] \<or> (\<exists>b. t = ''_'' @ b \<and> length b = 2 \<and> list_all digit b)"
      "r5 = t @ r"
    by blast
  have "s = g1 @ ''/V'' @ g2 @ ''_'' @ g3 @ t @ r"
    using d(4) r1 g2(3) r3 g3(3) t(2) by simp
  with d g2 g3 t show ?thesis by blast
qed

lemma recognized_shape_intro:
  assumes "length d = 4" "list_all digit d" "length g2 = 1 \<or> length g2 = 2" "list_all digit g2"
    "length g3 = 2" "list_all digit g3"
    "t = [] \<or> (\<exists>b. t = ''_'' @ b \<and> length b = 2 \<and> list_all digit b)"
  shows "recognized_shape ((''1000'' @ d) @ ''/V'' @ g2 @ ''_'' @ g3 @ t)"
proof -
  have tail: "shape_tail (length g2) (g2 @ ''_'' @ g3 @ t)"
    using assms(4-7) by (auto simp: shape_tail_def)
  have "drop 10 ((''1000'' @ d) @ ''/V'' @ g2 @ ''_'' @ g3 @ t) = g2 @ ''_'' @ g3 @ t"
    using assms(1) by simp
  with tail assms(1-3) show ?thesis
    by (auto simp: recognized_shape_def)
qed

lemma has_recognized_prefix_intro:
  "recognized_shape p \<Longrightarrow> has_recognized_prefix (p @ r)"
  unfolding has_recognized_prefix_def list_ex_iff
  by (rule bexI[of _ "length p"]) auto

lemma parse_version_tag_Some_prefix:
  assumes "parse_version_tag s \<noteq> None"
  shows "has_recognized_prefix s"
proof -
  from assms obtain g1 g2 g3 g4 g5 r rest where
    "version_tag_regex s = ((g1, g2, g3, g4, g5), r) # rest"
    by (auto simp: parse_version_tag_def split: list.splits)
  then have "((g1, g2, g3, g4, g5), r) \<in> set (version_tag_regex s)" by simp
  from version_tag_regex_sound[OF this] obtain d t where
    *: "g1 = ''1000'' @ d" "length d = 4" "list_all digit d"
       "length g2 = 1 \<or> length g2 = 2" "list_all digit g2"
       "length g3 = 2" "list_all digit g3"
       "t = [] \<or> (\<exists>b. t = ''_'' @ b \<and> length b = 2 \<and> list_all digit b)"
       "s = g1 @ ''/V'' @ g2 @ ''_'' @ g3 @ t @ r"
    by blast
  have "recognized_shape ((''1000'' @ d) @ ''/V'' @ g2 @ ''_'' @ g3 @ t)"
    using * by (intro recognized_shape_intro) simp_all
  then have "has_recognized_prefix (((''1000'' @ d) @ ''/V'' @ g2 @ ''_'' @ g3 @ t) @ r)"
    by (rule has_recognized_prefix_intro)
  with * show ?thesis by simp
qed

lemma parse_examples:
  "parse_version_tag ''10006000/V1_23_45'' = Some (10006000, 1, 23, 45)"
  "parse_version_tag ''10006000/V1_00'' = Some (10006000, 1, 0, 0)"
  "parse_version_tag ''10006000/V1_00_00x'' = Some (10006000, 1, 0, 0)"
  "parse_version_tag ''SomeTag'' = None"
  by code_simp+

lemma shape_examples:
  "\<not> recognized_shape ''10006000/V1_00_00x''"
  "\<not> has_recognized_prefix ''SomeTag''"
  by code_simp+

text \<open>
  Claim C6, as it is written, fails: \<open>p.match\<close> looks for the pattern at the start of
  the tag and does not ask that the tag ends where the match ends.  The tag
  \<open>10006000/V1_00_00x\<close> is not of the recognized shape, and it is parsed as
  \<open>(10006000, 1, 0, 0)\<close>.
\<close>

theorem parse_version_tag_trailing_text:
  "\<not> (\<forall>s. \<not> recognized_shape s \<longrightarrow> parse_version_tag s = None)"
proof
  assume "\<forall>s. \<not> recognized_shape s \<longrightarrow> parse_version_tag s = None"
  then have "parse_version_tag ''10006000/V1_00_00x'' = None"
    using shape_examples(1) by blast
  then show False by (simp add: parse_examples(3))
qed

text \<open>
  Claim C6, amended.  \<open>parse_version_tag\<close> is total: for every string it returns
  \<open>None\<close> or a tuple of four numbers.  It returns \<open>(10006000, 1, 23, 45)\<close> for
  \<open>10006000/V1_23_45\<close> and \<open>(10006000, 1, 0, 0)\<close> for \<open>10006000/V1_00\<close>, the absent
  build group read as 0; it returns \<open>None\<close> for every string no prefix of which is of
  the recognized shape; and a string that is not of that shape as a whole but starts
  with a text of it can be parsed: \<open>10006000/V1_00_00x\<close> gives
  \<open>(10006000, 1, 0, 0)\<close>.
\<close>

theorem parse_version_tag_prefix:
  "(\<forall>s. parse_version_tag s = None \<or>
        (\<exists>article major minor build. parse_version_tag s = Some (article, major, minor, build))) \<and>
   parse_version_tag ''10006000/V1_23_45'' = Some (10006000, 1, 23, 45) \<and>
   parse_version_tag ''10006000/V1_00'' = Some (10006000, 1, 0, 0) \<and>
   (\<forall>s. \<not> has_recognized_prefix s \<longrightarrow> parse_version_tag s = None) \<and>
   \<not> recognized_shape ''10006000/V1_00_00x'' \<and>
   has_recognized_prefix ''10006000/V1_00_00x'' \<and>
   parse_version_tag ''10006000/V1_00_00x'' = Some (10006000, 1, 0, 0)"
proof -
  have total: "parse_version_tag s = None \<or>
        (\<exists>article major minor build. parse_version_tag s = Some (article, major, minor, build))"
    for s
    by (cases "parse_version_tag s") auto
  have "has_recognized_prefix ''10006000/V1_00_00x''"
    using parse_version_tag_Some_prefix[of "''10006000/V1_00_00x''"] parse_examples(3) by simp
  with total show ?thesis
    using parse_version_tag_Some_prefix parse_examples(1,2,3) shape_examples(1) by blast
qed

theorem parse_version_tag_prefix_witness:
  "\<not> has_recognized_prefix ''SomeTag'' \<and> parse_version_tag ''SomeTag'' = None"
  using parse_version_tag_prefix shape_examples(2) by blast

section \<open>The pipeline\<close>

lemma check_head_None: "check_head e versions None sha wt idx w = (Inr (), w)"
  by (simp add: check_head_def pure_step_def)

lemma check_head_Some:
  "check_head e versions (Some (h # rest)) sha wt idx w =
     (case check_head_version_already_used h versions of
        Inl err \<Rightarrow> (Inl err, w)
      | Inr u1 \<Rightarrow>
     (case check_head_version_skipped_a_version h versions w of
        (Inl err, w2) \<Rightarrow> (Inl err, w2)
      | (Inr u2, w2) \<Rightarrow>
     (case check_tag_is_lightweight e (h # rest) w2 of
        (Inl err, w3) \<Rightarrow> (Inl err, w3)
      | (Inr u3, w3) \<Rightarrow>
     (case check_head_has_multiple_versions (h # rest) of
        Inl err \<Rightarrow> (Inl err, w3)
      | Inr u4 \<Rightarrow>
     (case check_head_has_local_changes wt idx of
        Inl err \<Rightarrow> (Inl err, w3)
      | Inr u5 \<Rightarrow> check_head_has_version_and_nonversion_tag e w3)))))"
  unfolding check_head_def and_then_def pure_step_def first_def
  by (simp split: sum.splits prod.splits)

lemma run_git_cmd_warnings: "warning_msgs (snd (run_git_cmd e c w)) = warning_msgs w"
  by (simp add: run_git_cmd_def Let_def split: option.splits)

lemma check_tag_is_lightweight_warnings:
  "warning_msgs (snd (check_tag_is_lightweight e hvs w)) = warning_msgs w"
proof (induction hvs arbitrary: w)
  case Nil
  then show ?case by simp
next
  case (Cons v vs)
  show ?case
    using Cons.IH run_git_cmd_warnings[of e _ w]
    by (auto simp: run_git_cmd_def Let_def split: option.splits prod.splits sum.splits)
qed

lemma run_aborted:
  assumes "get_head_versions (env_versions e) (env_head_sha1 e) = Inr (hv, vs)"
    and "get_head_has_local_changes e (w0\<lparr>warning_msgs := []\<rparr>) = (Inr (wt, idx), w2)"
    and "check_head e vs hv (env_head_sha1 e) wt idx w2 = (Inl (VersionTagError c msg), w3)"
  shows "run e target w0 = (Inr (c, Some msg, warning_msgs w3), w3)"
  using assms by (simp add: run_def and_then_def Let_def)

lemma run_passed:
  assumes "get_head_versions (env_versions e) (env_head_sha1 e) = Inr (hv, vs)"
    and "get_head_has_local_changes e (w0\<lparr>warning_msgs := []\<rparr>) = (Inr (wt, idx), w2)"
    and "check_head e vs hv (env_head_sha1 e) wt idx w2 = (Inr (), w3)"
    and "hv = None \<or> hv = Some (h # rest)"
  shows "fst (run e target w0) = Inr (0, None, warning_msgs w3) \<and>
         git_calls (snd (run e target w0)) = git_calls w3 \<and>
         files (snd (run e target w0)) target \<noteq> None"
  using assms
  by (auto simp: run_def and_then_def Let_def write_version_file_def
       print_version_information_def first_def)

lemma get_head_has_local_changes_ok:
  assumes "env_git e ''git diff'' = Some d1" "env_git e ''git diff --cached'' = Some d2"
  shows "get_head_has_local_changes e w =
     (Inr (strip d1, strip d2), w\<lparr>git_calls := git_calls w @ [''git diff'', ''git diff --cached'']\<rparr>)"
  using assms
  by (simp add: get_head_has_local_changes_def and_then_def run_git_cmd_def pure_step_def Let_def)

text \<open>
  Claim C3.  Without a version on HEAD \<open>check_head\<close> runs no check and leaves the world
  as it is.  With head versions the checks run in the order duplicate, skip, annotation,
  multiplicity, clean tree, stray tag: an error of one check is the result of
  \<open>check_head\<close>, with the world as that check left it, so no later check has run
  (none of their calls of git, none of their warnings), and the warnings appended before
  are still in \<open>warning_msgs\<close> (the annotation check does not touch the list, the
  multiplicity and clean-tree checks do not touch the world).  \<open>run\<close> returns the
  code and the message of that error with the warnings of that world; without a
  version on HEAD it returns code 0, no message and no warning, after the two calls of
  \<open>git diff\<close> only.  The witness is a HEAD whose version is older than the most recent
  one and whose tag is lightweight: the result is code 4 with the warning of the skip
  check, and the stray-tag check has not asked git for the tags.
\<close>

theorem checks_run_in_order:
  "check_head e versions None sha wt idx w = (Inr (), w) \<and>
   (\<forall>err. check_head_version_already_used h versions = Inl err \<longrightarrow>
      check_head e versions (Some (h # rest)) sha wt idx w = (Inl err, w)) \<and>
   (\<forall>err w2.
      check_head_version_already_used h versions = Inr () \<and>
      check_head_version_skipped_a_version h versions w = (Inl err, w2) \<longrightarrow>
      check_head e versions (Some (h # rest)) sha wt idx w = (Inl err, w2)) \<and>
   (\<forall>err w2 w3.
      check_head_version_already_used h versions = Inr () \<and>
      check_head_version_skipped_a_version h versions w = (Inr (), w2) \<and>
      check_tag_is_lightweight e (h # rest) w2 = (Inl err, w3) \<longrightarrow>
      check_head e versions (Some (h # rest)) sha wt idx w = (Inl err, w3) \<and>
      warning_msgs w3 = warning_msgs w2) \<and>
   (\<forall>err w2 w3.
      check_head_version_already_used h versions = Inr () \<and>
      check_head_version_skipped_a_version h versions w = (Inr (), w2) \<and>
      check_tag_is_lightweight e (h # rest) w2 = (Inr (), w3) \<and>
      check_head_has_multiple_versions (h # rest) = Inl err \<longrightarrow>
      check_head e versions (Some (h # rest)) sha wt idx w = (Inl err, w3) \<and>
      warning_msgs w3 = warning_msgs w2) \<and>
   (\<forall>err w2 w3.
      check_head_version_already_used h versions = Inr () \<and>
      check_head_version_skipped_a_version h versions w = (Inr (), w2) \<and>
      check_tag_is_lightweight e (h # rest) w2 = (Inr (), w3) \<and>
      check_head_has_multiple_versions (h # rest) = Inr () \<and>
      check_head_has_local_changes wt idx = Inl err \<longrightarrow>
      check_head e versions (Some (h # rest)) sha wt idx w = (Inl err, w3) \<and>
      warning_msgs w3 = warning_msgs w2) \<and>
   (\<forall>w2 w3.
      check_head_version_already_used h versions = Inr () \<and>
      check_head_version_skipped_a_version h versions w = (Inr (), w2) \<and>
      check_tag_is_lightweight e (h # rest) w2 = (Inr (), w3) \<and>
      check_head_has_multiple_versions (h # rest) = Inr () \<and>
      check_head_has_local_changes wt idx = Inr () \<longrightarrow>
      check_head e versions (Some (h # rest)) sha wt idx w
        = check_head_has_version_and_nonversion_tag e w3) \<and>
   (\<forall>hv vs wt' idx' w2 c msg w3.
      get_head_versions (env_versions e) (env_head_sha1 e) = Inr (hv, vs) \<and>
      get_head_has_local_changes e (w0\<lparr>warning_msgs := []\<rparr>) = (Inr (wt', idx'), w2) \<and>
      check_head e vs hv (env_head_sha1 e) wt' idx' w2 = (Inl (VersionTagError c msg), w3) \<longrightarrow>
      run e target w0 = (Inr (c, Some msg, warning_msgs w3), w3)) \<and>
   (\<forall>vs wt' idx' w2.
      get_head_versions (env_versions e) (env_head_sha1 e) = Inr (None, vs) \<and>
      get_head_has_local_changes e (w0\<lparr>warning_msgs := []\<rparr>) = (Inr (wt', idx'), w2) \<longrightarrow>
      fst (run e target w0) = Inr (0, None, []) \<and>
      git_calls (snd (run e target w0)) = git_calls w2)"
proof -
  have lw: "warning_msgs w3 = warning_msgs w2"
    if "check_tag_is_lightweight e (h # rest) w2 = (r, w3)" for r w2 w3
    using check_tag_is_lightweight_warnings[of e "h # rest" w2] that by simp
  have absent: "fst (run e target w0) = Inr (0, None, []) \<and>
      git_calls (snd (run e target w0)) = git_calls w2"
    if g: "get_head_versions (env_versions e) (env_head_sha1 e) = Inr (None, vs)"
      and l: "get_head_has_local_changes e (w0\<lparr>warning_msgs := []\<rparr>) = (Inr (wt', idx'), w2)"
    for vs wt' idx' w2
  proof -
    have "warning_msgs w2 = []"
      using l
      by (auto simp: get_head_has_local_changes_def and_then_def run_git_cmd_def pure_step_def
            Let_def split: option.splits)
    moreover have "check_head e vs None (env_head_sha1 e) wt' idx' w2 = (Inr (), w2)"
      by (rule check_head_None)
    ultimately show ?thesis
      using run_passed[OF g l, of w2 undefined undefined target] by simp
  qed
  show ?thesis
    apply (intro conjI allI impI)
            apply (rule check_head_None)
           apply (simp add: check_head_Some)
          apply (simp add: check_head_Some)
         apply (simp add: check_head_Some)
        apply (elim conjE, erule lw)
       apply (simp add: check_head_Some)
      apply (elim conjE, erule lw)
     apply (simp add: check_head_Some)
    apply (elim conjE, erule lw)
      apply (simp add: check_head_Some)
     apply (elim conjE, erule (2) run_aborted)
    apply (elim conjE, erule (1) absent[THEN conjunct1])
    apply (elim conjE, erule (1) absent[THEN conjunct2])
    done
qed

theorem checks_run_in_order_witness:
  "fst (run
      \<lparr>env_versions =
         [Version_init 1 0 0 (Some ''1'') (Some 10006000) (Some ''head'') (Some ''10006000/V1_00_00''),
          Version_init 1 1 0 (Some ''2'') (Some 10006000) (Some ''newer'') (Some ''10006000/V1_01_00'')],
       env_head_sha1 = ''head'',
       env_git = (\<lambda>c. if c = ''git diff'' then Some []
                     else if c = ''git diff --cached'' then Some []
                     else if c = ''git for-each-ref --format=\"%(objecttype)\" refs/tags/10006000/V1_00_00''
                       then Some ''commit\<newline>''
                     else None),
       env_repr = (\<lambda>tags. [])\<rparr>
      ''SwPackageVersion.h''
      \<lparr>warning_msgs = [''left over''], git_calls = [], files = Map.empty, stdout = []\<rparr>)
     = Inr (4,
        Some ''You assigned a lightweight tag (10006000/V1_00_00) to HEAD, you should use annotated tags (git tag -a)'',
        [''HEAD is tagged with version 1.00.00 but the most recent version is 1.01.00. Was this the intention (you might have checked out an earlier commit)?'']) \<and>
   git_calls (snd (run
      \<lparr>env_versions =
         [Version_init 1 0 0 (Some ''1'') (Some 10006000) (Some ''head'') (Some ''10006000/V1_00_00''),
          Version_init 1 1 0 (Some ''2'') (Some 10006000) (Some ''newer'') (Some ''10006000/V1_01_00'')],
       env_head_sha1 = ''head'',
       env_git = (\<lambda>c. if c = ''git diff'' then Some []
                     else if c = ''git diff --cached'' then Some []
                     else if c = ''git for-each-ref --format=\"%(objecttype)\" refs/tags/10006000/V1_00_00''
                       then Some ''commit\<newline>''
                     else None),
       env_repr = (\<lambda>tags. [])\<rparr>
      ''SwPackageVersion.h''
      \<lparr>warning_msgs = [''left over''], git_calls = [], files = Map.empty, stdout = []\<rparr>))
     = [''git diff'', ''git diff --cached'',
        ''git for-each-ref --format=\"%(objecttype)\" refs/tags/10006000/V1_00_00'']"
proof -
  let ?H = "Version_init 1 0 0 (Some ''1'') (Some 10006000) (Some ''head'') (Some ''10006000/V1_00_00'')"
  let ?P = "Version_init 1 1 0 (Some ''2'') (Some 10006000) (Some ''newer'') (Some ''10006000/V1_01_00'')"
  let ?git = "\<lambda>c. if c = ''git diff'' then Some []
                     else if c = ''git diff --cached'' then Some []
                     else if c = ''git for-each-ref --format=\"%(objecttype)\" refs/tags/10006000/V1_00_00''
                       then Some ''commit\<newline>''
                     else None"
  let ?E = "\<lparr>env_versions = [?H, ?P], env_head_sha1 = ''head'', env_git = ?git,
             env_repr = (\<lambda>tags. [])\<rparr>"
  let ?W0 = "\<lparr>warning_msgs = [''left over''], git_calls = [], files = Map.empty, stdout = []\<rparr>"
  let ?W2 = "\<lparr>warning_msgs = [], git_calls = [''git diff'', ''git diff --cached''],
              files = Map.empty, stdout = []\<rparr>"
  let ?warn = "''HEAD is tagged with version 1.00.00 but the most recent version is 1.01.00. Was this the intention (you might have checked out an earlier commit)?''"
  let ?W2' = "?W2\<lparr>warning_msgs := [?warn]\<rparr>"
  let ?cmd = "''git for-each-ref --format=\"%(objecttype)\" refs/tags/10006000/V1_00_00''"
  let ?W3 = "?W2'\<lparr>git_calls := [''git diff'', ''git diff --cached'', ?cmd]\<rparr>"
  let ?msg = "''You assigned a lightweight tag (10006000/V1_00_00) to HEAD, you should use annotated tags (git tag -a)''"
  have ghv: "get_head_versions (env_versions ?E) (env_head_sha1 ?E) = Inr (Some [?H], [?P])"
    by (simp add: get_head_versions_def Let_def Version_eq_def)
  have st: "strip [] = []" "strip ''commit\<newline>'' = ''commit''" by code_simp+
  have loc: "get_head_has_local_changes ?E (?W0\<lparr>warning_msgs := []\<rparr>) = (Inr ([], []), ?W2)"
    using get_head_has_local_changes_ok[of ?E "[]" "[]" "?W0\<lparr>warning_msgs := []\<rparr>"]
    by (simp add: st)
  have dup: "check_head_version_already_used ?H [?P] = Inr ()"
    by (simp add: Version_eq_def)
  have w: "skipped_warning ?H ?P = ?warn" by code_simp
  have skip: "check_head_version_skipped_a_version ?H [?P] ?W2 = (Inr (), ?W2')"
    by (simp add: check_head_version_skipped_a_version_def Let_def Version_kind_def
          first_test_version_def Version_is_kind_def truthy_def Version_gt_def Version_le_def w)
  have light: "check_tag_is_lightweight ?E [?H] ?W2' = (Inl (VersionTagError 4 ?msg), ?W3)"
    by (simp add: run_git_cmd_def Let_def format_opt_def st)
  note t = checks_run_in_order[of ?E "[?P]" "''head''" "[]" "[]" ?W2 ?H "[]" ?W0
              "''SwPackageVersion.h''"]
  note d = t[THEN conjunct2, THEN conjunct2, THEN conjunct2, THEN conjunct1, rule_format,
              OF conjI[OF dup conjI[OF skip light]]]
  note ch = d[THEN conjunct1]
  note r = t[THEN conjunct2, THEN conjunct2, THEN conjunct2, THEN conjunct2, THEN conjunct2,
              THEN conjunct2, THEN conjunct2, THEN conjunct1, rule_format,
              OF conjI[OF ghv conjI[OF loc]]]
  have "run ?E ''SwPackageVersion.h'' ?W0 = (Inr (4, Some ?msg, warning_msgs ?W3), ?W3)"
    using ch by (intro r) simp
  then show ?thesis by simp
qed

section \<open>The skip check\<close>

lemma is_kind_release_iff:
  "truthy (Version_is_kind p ''release'') = (Version_kind p = ''release'')"
  by (simp add: truthy_def Version_is_kind_def Version_kind_def)

lemma is_kind_test_iff:
  "truthy (Version_is_kind p ''test'') = (Version_kind p = ''test'' \<and> version p \<noteq> 900000)"
  by (auto simp: truthy_def Version_is_kind_def Version_kind_def first_test_version_def)

lemma Version_kind_cases: "Version_kind h = ''release'' \<or> Version_kind h = ''test''"
  by (simp add: Version_kind_def)

lemma most_recent_loop_cases:
  "most_recent_loop k m0 prevs = m0 \<or>
     (most_recent_loop k m0 prevs \<in> set prevs \<and>
      truthy (Version_is_kind (most_recent_loop k m0 prevs) k))"
proof (induction prevs arbitrary: m0)
  case Nil
  then show ?case by simp
next
  case (Cons p ps)
  show ?case
    using Cons.IH[of "if truthy (Version_is_kind p k) \<and> Version_gt p m0 then p else m0"]
    by (auto split: if_splits)
qed

lemma most_recent_loop_lower:
  "version m0 \<le> version (most_recent_loop k m0 prevs) \<and>
   (\<forall>p \<in> set prevs. truthy (Version_is_kind p k) \<longrightarrow>
      version p \<le> version (most_recent_loop k m0 prevs))"
proof (induction prevs arbitrary: m0)
  case Nil
  then show ?case by simp
next
  case (Cons p ps)
  let ?m1 = "if truthy (Version_is_kind p k) \<and> Version_gt p m0 then p else m0"
  have "version m0 \<le> version ?m1" "truthy (Version_is_kind p k) \<longrightarrow> version p \<le> version ?m1"
    by (auto simp: Version_gt_def)
  with Cons.IH[of ?m1] show ?case
    by (auto simp del: split_paired_All)
qed

lemma most_recent_loop_key:
  assumes "m \<in> set prevs" "truthy (Version_is_kind m k)"
    and "\<forall>p \<in> set prevs. truthy (Version_is_kind p k) \<longrightarrow> version p \<le> version m"
    and "version m0 \<le> version m"
  shows "version (most_recent_loop k m0 prevs) = version m"
proof -
  have "version m \<le> version (most_recent_loop k m0 prevs)"
    using most_recent_loop_lower[of m0 k prevs] assms(1,2) by blast
  moreover have "version (most_recent_loop k m0 prevs) \<le> version m"
    using most_recent_loop_cases[of k m0 prevs] assms(3,4) by auto
  ultimately show ?thesis by simp
qed

lemma Version_next_same_key:
  assumes "version a = version b" "Version_next b r = Inr nb"
  shows "\<exists>na. Version_next a r = Inr na \<and> version na = version nb \<and>
           Version_str na = Version_str nb"
  using assms
  by (auto simp: Version_next_def next_ver_of_def Version_str_def split: if_splits)

text \<open>
  The successors the skip check accepts.  With \<open>m\<close> a historical version of largest
  order key among those the search keeps (\<open>is_kind\<close> of the head's kind) and a head
  \<open>h\<close> above it, a release head passes exactly when its key is that of one of the
  three next versions of \<open>m\<close>, a test head exactly when its key is that of the next
  minor or the next build; any other head gets the error with code 5 that lists the
  valid next versions.
\<close>

lemma skip_check_valid_successors:
  assumes "m \<in> set prevs" and "0 \<le> version m" and "version m < version h"
    and "truthy (Version_is_kind m (Version_kind h))"
    and "\<forall>p \<in> set prevs. truthy (Version_is_kind p (Version_kind h)) \<longrightarrow> version p \<le> version m"
    and "Version_next m ''roll_major'' = Inr n_major"
    and "Version_next m ''roll_minor'' = Inr n_minor"
    and "Version_next m ''roll_build'' = Inr n_build"
  shows "check_head_version_skipped_a_version h prevs w =
      (if Version_kind h = ''release'' then
         (if version h \<in> {version n_major, version n_minor, version n_build}
          then (Inr (), w) else (Inl (release_skip_error n_major n_minor n_build), w))
       else
         (if version h \<in> {version n_minor, version n_build}
          then (Inr (), w) else (Inl (test_skip_error n_minor n_build), w)))"
proof -
  let ?m0 = "Version_init 0 0 0 None None None None"
  let ?mr = "most_recent_loop (Version_kind h) ?m0 prevs"
  have key: "version ?mr = version m"
    using most_recent_loop_key[OF assms(1) assms(4) assms(5), of ?m0] assms(2) by simp
  obtain a0 where a0: "Version_next ?mr ''roll_major'' = Inr a0" "version a0 = version n_major"
      "Version_str a0 = Version_str n_major"
    using Version_next_same_key[OF key assms(6)] by blast
  obtain a1 where a1: "Version_next ?mr ''roll_minor'' = Inr a1" "version a1 = version n_minor"
      "Version_str a1 = Version_str n_minor"
    using Version_next_same_key[OF key assms(7)] by blast
  obtain a2 where a2: "Version_next ?mr ''roll_build'' = Inr a2" "version a2 = version n_build"
      "Version_str a2 = Version_str n_build"
    using Version_next_same_key[OF key assms(8)] by blast
  have le: "\<not> Version_le h ?mr" "Version_gt h ?mr"
    using key assms(3) by (simp_all add: Version_le_def Version_gt_def)
  show ?thesis
    unfolding check_head_version_skipped_a_version_def Let_def
    using le a0 a1 a2
    by (auto simp: version_in_def Version_eq_def release_skip_error_def test_skip_error_def)
qed

lemma skip_check_release_example:
  "check_head_version_skipped_a_version
      (Version_init 1 3 0 None (Some 10006000) (Some ''c3'') (Some ''10006000/V1_03_00''))
      [Version_init 1 0 0 None (Some 10006000) (Some ''c1'') (Some ''10006000/V1_00_00''),
       Version_init 1 1 0 None (Some 10006000) (Some ''c2'') (Some ''10006000/V1_01_00'')] w
    = (Inl (VersionTagError 5
         ''You skipped a release version, the next version should be either 2.00.00, 1.02.00, or 1.01.01.''),
       w)"
  "check_head_version_skipped_a_version
      (Version_init 1 2 0 None (Some 10006000) (Some ''c3'') (Some ''10006000/V1_02_00''))
      [Version_init 1 0 0 None (Some 10006000) (Some ''c1'') (Some ''10006000/V1_00_00''),
       Version_init 1 1 0 None (Some 10006000) (Some ''c2'') (Some ''10006000/V1_01_00'')] w
    = (Inr (), w)"
proof -
  let ?p0 = "Version_init 1 0 0 None (Some 10006000) (Some ''c1'') (Some ''10006000/V1_00_00'')"
  let ?m = "Version_init 1 1 0 None (Some 10006000) (Some ''c2'') (Some ''10006000/V1_01_00'')"
  let ?h3 = "Version_init 1 3 0 None (Some 10006000) (Some ''c3'') (Some ''10006000/V1_03_00'')"
  let ?h2 = "Version_init 1 2 0 None (Some 10006000) (Some ''c3'') (Some ''10006000/V1_02_00'')"
  let ?n0 = "Version_init 2 0 0 None (Some 10006000) (Some ''c2'') None"
  let ?n1 = "Version_init 1 2 0 None (Some 10006000) (Some ''c2'') None"
  let ?n2 = "Version_init 1 1 1 None (Some 10006000) (Some ''c2'') None"
  have nx: "Version_next ?m ''roll_major'' = Inr ?n0" "Version_next ?m ''roll_minor'' = Inr ?n1"
      "Version_next ?m ''roll_build'' = Inr ?n2"
    by (simp_all add: Version_next_def next_ver_of_def)
  have in_prevs: "?m \<in> set [?p0, ?m]" and nonneg: "0 \<le> version ?m" by simp_all
  have k3: "Version_kind ?h3 = ''release''" and k2: "Version_kind ?h2 = ''release''"
    by (simp_all add: Version_kind_def first_test_version_def)
  have km: "truthy (Version_is_kind ?m ''release'')"
      "\<forall>p \<in> set [?p0, ?m]. truthy (Version_is_kind p ''release'') \<longrightarrow> version p \<le> version ?m"
    by (simp_all add: Version_is_kind_def truthy_def first_test_version_def)
  have msg: "release_skip_error ?n0 ?n1 ?n2 = VersionTagError 5
         ''You skipped a release version, the next version should be either 2.00.00, 1.02.00, or 1.01.01.''"
    by code_simp
  have lt3: "version ?m < version ?h3" and lt2: "version ?m < version ?h2" by simp_all
  show "check_head_version_skipped_a_version ?h3 [?p0, ?m] w =
      (Inl (VersionTagError 5
         ''You skipped a release version, the next version should be either 2.00.00, 1.02.00, or 1.01.01.''), w)"
    using skip_check_valid_successors[OF in_prevs nonneg lt3 _ _ nx, of w] km k3 msg by simp
  show "check_head_version_skipped_a_version ?h2 [?p0, ?m] w = (Inr (), w)"
    using skip_check_valid_successors[OF in_prevs nonneg lt2 _ _ nx, of w] km k2 by simp
qed

lemma run_first_test_version:
  "fst (run
      \<lparr>env_versions =
         [Version_init 90 0 0 (Some ''1'') (Some 10006000) (Some ''older'') (Some ''10006000/V90_00_00''),
          Version_init 90 0 1 (Some ''2'') (Some 10006000) (Some ''head'') (Some ''10006000/V90_00_01'')],
       env_head_sha1 = ''head'',
       env_git = (\<lambda>c. if c = ''git diff'' then Some []
                     else if c = ''git diff --cached'' then Some []
                     else None),
       env_repr = (\<lambda>tags. [])\<rparr>
      ''SwPackageVersion.h''
      \<lparr>warning_msgs = [], git_calls = [], files = Map.empty, stdout = []\<rparr>)
     = Inr (5,
        Some ''You skipped a test version, the next version should be either 0.01.00 or 0.00.01.'',
        [])"
proof -
  let ?P = "Version_init 90 0 0 (Some ''1'') (Some 10006000) (Some ''older'') (Some ''10006000/V90_00_00'')"
  let ?H = "Version_init 90 0 1 (Some ''2'') (Some 10006000) (Some ''head'') (Some ''10006000/V90_00_01'')"
  let ?E = "\<lparr>env_versions = [?P, ?H], env_head_sha1 = ''head'',
       env_git = (\<lambda>c. if c = ''git diff'' then Some []
                     else if c = ''git diff --cached'' then Some []
                     else None),
       env_repr = (\<lambda>tags. [])\<rparr>"
  let ?W0 = "\<lparr>warning_msgs = [], git_calls = [], files = Map.empty, stdout = []\<rparr>"
  let ?W2 = "\<lparr>warning_msgs = [], git_calls = [''git diff'', ''git diff --cached''],
              files = Map.empty, stdout = []\<rparr>"
  let ?msg = "''You skipped a test version, the next version should be either 0.01.00 or 0.00.01.''"
  have ghv: "get_head_versions (env_versions ?E) (env_head_sha1 ?E) = Inr (Some [?H], [?P])"
    by (simp add: get_head_versions_def Let_def Version_eq_def)
  have st: "strip [] = []" by code_simp
  have loc: "get_head_has_local_changes ?E (?W0\<lparr>warning_msgs := []\<rparr>) = (Inr ([], []), ?W2)"
    using get_head_has_local_changes_ok[of ?E "[]" "[]" "?W0\<lparr>warning_msgs := []\<rparr>"]
    by (simp add: st)
  have dup: "check_head_version_already_used ?H [?P] = Inr ()"
    by (simp add: Version_eq_def)
  have s: "Version_str (Version_init 0 1 0 None None None None) = ''0.01.00''"
      "Version_str (Version_init 0 0 1 None None None None) = ''0.00.01''"
    by code_simp+
  have skip: "check_head_version_skipped_a_version ?H [?P] ?W2 = (Inl (VersionTagError 5 ?msg), ?W2)"
    by (simp add: check_head_version_skipped_a_version_def Let_def Version_kind_def
          first_test_version_def Version_is_kind_def truthy_def Version_gt_def Version_le_def
          Version_next_def next_ver_of_def version_in_def Version_eq_def s)
  have "check_head ?E [?P] (Some [?H]) (env_head_sha1 ?E) [] [] ?W2 = (Inl (VersionTagError 5 ?msg), ?W2)"
    using dup skip by (simp add: check_head_Some)
  from run_aborted[OF ghv loc this, of "''SwPackageVersion.h''"] show ?thesis by simp
qed

text \<open>
  Claim C1.  Above the most recent historical version \<open>m\<close> of its kind a release head
  is accepted exactly when it is one of the three next versions of \<open>m\<close>, a test head
  exactly when it is the next minor or the next build of \<open>m\<close>, and any other head gets
  the error with code 5.  The check does so for the versions its search keeps (lemmas
  \<open>skip_check_valid_successors\<close> and \<open>skip_check_release_example\<close>), but the search
  asks \<open>is_kind("test")\<close>, which is false at the order key 900000 although the kind of
  90.00.00 is \<open>test\<close>.  With the history 90.00.00 the search keeps its start value
  0.00.00, and the head 90.00.01, the next build of 90.00.00, is refused with code 5 and
  a message that names 0.01.00 and 0.00.01; \<open>run\<close> returns that error for a
  repository with the tag \<open>10006000/V90_00_00\<close> on an older commit, the tag
  \<open>10006000/V90_00_01\<close> on HEAD and a clean tree.
\<close>

theorem skip_check_misses_first_test_version:
  "Version_kind (Version_init 90 0 0 None (Some 10006000) (Some ''c1'') (Some ''10006000/V90_00_00''))
     = ''test'' \<and>
   Version_kind (Version_init 90 0 1 None (Some 10006000) (Some ''c2'') (Some ''10006000/V90_00_01''))
     = ''test'' \<and>
   Version_next (Version_init 90 0 0 None (Some 10006000) (Some ''c1'') (Some ''10006000/V90_00_00''))
       ''roll_build''
     = Inr (Version_init 90 0 1 None (Some 10006000) (Some ''c1'') None) \<and>
   check_head_version_skipped_a_version
       (Version_init 90 0 1 None (Some 10006000) (Some ''c2'') (Some ''10006000/V90_00_01''))
       [Version_init 90 0 0 None (Some 10006000) (Some ''c1'') (Some ''10006000/V90_00_00'')]
       \<lparr>warning_msgs = [], git_calls = [], files = Map.empty, stdout = []\<rparr>
     = (Inl (VersionTagError 5
          ''You skipped a test version, the next version should be either 0.01.00 or 0.00.01.''),
        \<lparr>warning_msgs = [], git_calls = [], files = Map.empty, stdout = []\<rparr>) \<and>
   fst (run
      \<lparr>env_versions =
         [Version_init 90 0 0 (Some ''1'') (Some 10006000) (Some ''older'') (Some ''10006000/V90_00_00''),
          Version_init 90 0 1 (Some ''2'') (Some 10006000) (Some ''head'') (Some ''10006000/V90_00_01'')],
       env_head_sha1 = ''head'',
       env_git = (\<lambda>c. if c = ''git diff'' then Some []
                     else if c = ''git diff --cached'' then Some []
                     else None),
       env_repr = (\<lambda>tags. [])\<rparr>
      ''SwPackageVersion.h''
      \<lparr>warning_msgs = [], git_calls = [], files = Map.empty, stdout = []\<rparr>)
     = Inr (5,
        Some ''You skipped a test version, the next version should be either 0.01.00 or 0.00.01.'',
        [])"
proof -
  have s: "Version_str (Version_init 0 1 0 None None None None) = ''0.01.00''"
      "Version_str (Version_init 0 0 1 None None None None) = ''0.00.01''"
    by code_simp+
  show ?thesis
    using run_first_test_version
    by (simp add: check_head_version_skipped_a_version_def Let_def Version_kind_def
          first_test_version_def Version_is_kind_def truthy_def Version_gt_def Version_le_def
          Version_next_def next_ver_of_def version_in_def Version_eq_def s)
qed

lemma in_range_decomposed: "in_range v \<Longrightarrow> decomposed v"
proof -
  assume r: "in_range v"
  let ?M = "major_ver v" and ?m = "minor_ver v" and ?b = "build_num v"
  have b: "0 \<le> ?m * 100 + ?b" "?m * 100 + ?b < 10000" "0 \<le> ?b" "?b < 100"
    using r by (auto simp: in_range_def)
  have v: "version v = ?M * 10000 + (?m * 100 + ?b)" by (simp add: version_def)
  have 1: "version v div 10000 = ?M"
    using b(1,2) unfolding v by simp
  have 2: "version v mod 10000 = ?m * 100 + ?b"
    using b(1,2) unfolding v by simp
  have 3: "(?m * 100 + ?b) div 100 = ?m"
    using b(3,4) by simp
  have "version v = ?b + (?M * 100 + ?m) * 100" by (simp add: version_def)
  then have "version v mod 100 = ?b mod 100" by (simp only: mod_mult_self1)
  then have 4: "version v mod 100 = ?b"
    using b(3,4) by simp
  show ?thesis
    unfolding decomposed_def using 1 2 3 4 by simp
qed

lemma Version_str_same_key:
  assumes "in_range a" "in_range b" "version a = version b"
  shows "Version_str a = Version_str b"
  using in_range_decomposed[OF assms(1)] in_range_decomposed[OF assms(2)] assms(3)
  by (simp add: decomposed_def Version_str_def)

lemma in_range_version_nonneg: "in_range v \<Longrightarrow> 0 \<le> version v"
  by (simp add: in_range_def version_def)

lemma skip_check_warns:
  assumes "m \<in> set prevs" and "version h \<le> version m" and "\<forall>p \<in> set prevs. in_range p"
    and "truthy (Version_is_kind m (Version_kind h))"
    and "\<forall>p \<in> set prevs. truthy (Version_is_kind p (Version_kind h)) \<longrightarrow> version p \<le> version m"
  shows "check_head_version_skipped_a_version h prevs w =
           (Inr (), w\<lparr>warning_msgs := warning_msgs w @ [skipped_warning h m]\<rparr>)"
proof -
  let ?m0 = "Version_init 0 0 0 None None None None"
  let ?mr = "most_recent_loop (Version_kind h) ?m0 prevs"
  have m: "in_range m" using assms(1,3) by blast
  have key: "version ?mr = version m"
    using most_recent_loop_key[OF assms(1) assms(4) assms(5), of ?m0] in_range_version_nonneg[OF m]
    by simp
  have "in_range ?m0" by (simp add: in_range_def)
  then have "in_range ?mr"
    using most_recent_loop_cases[of "Version_kind h" ?m0 prevs] assms(3) by auto
  then have "Version_str ?mr = Version_str m"
    using key m by (intro Version_str_same_key)
  then have "skipped_warning h ?mr = skipped_warning h m"
    by (simp add: skipped_warning_def)
  moreover have "Version_le h ?mr"
    using key assms(2) by (simp add: Version_le_def)
  ultimately show ?thesis
    by (simp add: check_head_version_skipped_a_version_def Let_def)
qed

lemma same_kind_kept_by_search:
  assumes "m \<in> set prevs" and "version h \<le> version m"
    and "Version_kind m = Version_kind h"
    and "\<forall>p \<in> set prevs. Version_kind p = Version_kind h \<longrightarrow> version p \<le> version m"
    and "check_head_version_already_used h prevs = Inr ()"
  shows "truthy (Version_is_kind m (Version_kind h)) \<and>
         (\<forall>p \<in> set prevs. truthy (Version_is_kind p (Version_kind h)) \<longrightarrow> version p \<le> version m)"
proof -
  have "version m \<noteq> version h"
    using assms(1,5) by (auto simp: check_head_version_already_used_result split: if_splits)
  with assms(2) have lt: "version h < version m" by simp
  show ?thesis
  proof (cases "Version_kind h = ''release''")
    case True
    with assms(3,4) show ?thesis by (simp add: is_kind_release_iff)
  next
    case False
    then have t: "Version_kind h = ''test''" using Version_kind_cases[of h] by simp
    then have "900000 \<le> version h"
      by (simp add: Version_kind_def first_test_version_def split: if_splits)
    with lt have "version m \<noteq> 900000" by simp
    with t assms(3,4) show ?thesis by (simp add: is_kind_test_iff)
  qed
qed

lemma check_tag_is_lightweight_passes:
  "tags_annotated e hvs \<Longrightarrow>
     \<exists>w3. check_tag_is_lightweight e hvs w = (Inr (), w3) \<and> warning_msgs w3 = warning_msgs w"
proof (induction hvs arbitrary: w)
  case Nil
  then show ?case by simp
next
  case (Cons v vs)
  from Cons.prems obtain out where
    out: "env_git e (''git for-each-ref --format=\"%(objecttype)\" refs/tags/''
                        @ format_opt (tag_name v)) = Some out" "strip out \<noteq> ''commit''"
    and rest: "tags_annotated e vs"
    by (auto simp: tags_annotated_def split: option.splits)
  let ?w' = "w\<lparr>git_calls := git_calls w @ [''git '' @ ''for-each-ref --format=\"%(objecttype)\" refs/tags/''
                        @ format_opt (tag_name v)]\<rparr>"
  from Cons.IH[OF rest, of ?w'] obtain w3 where
    "check_tag_is_lightweight e vs ?w' = (Inr (), w3)" "warning_msgs w3 = warning_msgs ?w'"
    by blast
  with out show ?case
    by (simp add: run_git_cmd_def Let_def)
qed

lemma stray_tag_check_silent:
  "no_stray_tags e \<Longrightarrow>
     \<exists>w'. check_head_has_version_and_nonversion_tag e w = (Inr (), w') \<and>
          warning_msgs w' = warning_msgs w"
  by (auto simp: no_stray_tags_def check_head_has_version_and_nonversion_tag_def and_then_def
        run_git_cmd_def Let_def split: option.splits)

lemma clean_tree_local_changes:
  "clean_tree e \<Longrightarrow>
     \<exists>w2. get_head_has_local_changes e w = (Inr ([], []), w2) \<and> warning_msgs w2 = warning_msgs w"
  by (auto simp: clean_tree_def get_head_has_local_changes_def and_then_def run_git_cmd_def
        pure_step_def Let_def split: option.splits)

lemma run_with_earlier_version:
  assumes "m \<in> set prevs" and "version h \<le> version m" and "\<forall>p \<in> set prevs. in_range p"
    and "Version_kind m = Version_kind h"
    and "\<forall>p \<in> set prevs. Version_kind p = Version_kind h \<longrightarrow> version p \<le> version m"
    and ghv: "get_head_versions (env_versions e) (env_head_sha1 e) = Inr (Some (h # rest), prevs)"
    and dup: "check_head_version_already_used h prevs = Inr ()"
    and ann: "tags_annotated e (h # rest)"
    and mul: "check_head_has_multiple_versions (h # rest) = Inr ()"
    and cln: "clean_tree e"
    and str: "no_stray_tags e"
  shows "fst (run e target w0) = Inr (0, None, [skipped_warning h m])"
proof -
  from clean_tree_local_changes[OF cln, of "w0\<lparr>warning_msgs := []\<rparr>"] obtain w2 where
    loc: "get_head_has_local_changes e (w0\<lparr>warning_msgs := []\<rparr>) = (Inr ([], []), w2)"
    and w2: "warning_msgs w2 = []"
    by auto
  let ?w2' = "w2\<lparr>warning_msgs := warning_msgs w2 @ [skipped_warning h m]\<rparr>"
  note k = same_kind_kept_by_search[OF assms(1,2,4,5) dup]
  have skip: "check_head_version_skipped_a_version h prevs w2 = (Inr (), ?w2')"
    using skip_check_warns[OF assms(1,2,3) k[THEN conjunct1] k[THEN conjunct2]] .
  from check_tag_is_lightweight_passes[OF ann, of ?w2'] obtain w3 where
    light: "check_tag_is_lightweight e (h # rest) ?w2' = (Inr (), w3)"
    and w3: "warning_msgs w3 = warning_msgs ?w2'"
    by blast
  from stray_tag_check_silent[OF str, of w3] obtain w4 where
    stray: "check_head_has_version_and_nonversion_tag e w3 = (Inr (), w4)"
    and w4: "warning_msgs w4 = warning_msgs w3"
    by blast
  have loc_ok: "check_head_has_local_changes [] [] = Inr ()"
    by (simp add: check_head_has_local_changes_def)
  have "check_head e prevs (Some (h # rest)) (env_head_sha1 e) [] [] w2 = (Inr (), w4)"
    using dup skip light mul loc_ok stray by (simp add: check_head_Some)
  from run_passed[OF ghv loc this, of h rest target] w4 w3 w2
  show ?thesis by simp
qed

text \<open>
  A head version that is not newer than the most recent historical version.  Let \<open>m\<close>
  be a historical version of largest order key among those of the kind of the head
  version \<open>h\<close>, all historical versions with in-range numbers, and let the key of
  \<open>h\<close> be at most that of \<open>m\<close>.  Then the skip check returns normally and appends
  exactly one warning, which names \<open>h\<close> and \<open>m\<close>: for the versions the search keeps
  (\<open>is_kind\<close> of the head's kind), and for the versions whose \<open>kind\<close> is that of
  \<open>h\<close> whenever the duplicate check, which runs first, has passed.  And \<open>run\<close>, when
  the other checks pass without a warning (no duplicate, annotated tags, one version
  on HEAD, clean tree, no stray tag), returns code 0, no message and exactly that
  warning.
\<close>

lemma earlier_version_warns:
  assumes "m \<in> set prevs" and "version h \<le> version m" and "\<forall>p \<in> set prevs. in_range p"
  shows
    "(truthy (Version_is_kind m (Version_kind h)) \<and>
      (\<forall>p \<in> set prevs. truthy (Version_is_kind p (Version_kind h)) \<longrightarrow> version p \<le> version m)
      \<longrightarrow> check_head_version_skipped_a_version h prevs w =
            (Inr (), w\<lparr>warning_msgs := warning_msgs w @ [skipped_warning h m]\<rparr>)) \<and>
     (Version_kind m = Version_kind h \<and>
      (\<forall>p \<in> set prevs. Version_kind p = Version_kind h \<longrightarrow> version p \<le> version m) \<and>
      check_head_version_already_used h prevs = Inr ()
      \<longrightarrow> check_head_version_skipped_a_version h prevs w =
            (Inr (), w\<lparr>warning_msgs := warning_msgs w @ [skipped_warning h m]\<rparr>)) \<and>
     (Version_kind m = Version_kind h \<and>
      (\<forall>p \<in> set prevs. Version_kind p = Version_kind h \<longrightarrow> version p \<le> version m) \<and>
      get_head_versions (env_versions e) (env_head_sha1 e) = Inr (Some (h # rest), prevs) \<and>
      check_head_version_already_used h prevs = Inr () \<and>
      tags_annotated e (h # rest) \<and>
      check_head_has_multiple_versions (h # rest) = Inr () \<and>
      clean_tree e \<and> no_stray_tags e
      \<longrightarrow> fst (run e target w0) = Inr (0, None, [skipped_warning h m]))"
proof (intro conjI impI)
  assume "truthy (Version_is_kind m (Version_kind h)) \<and>
      (\<forall>p \<in> set prevs. truthy (Version_is_kind p (Version_kind h)) \<longrightarrow> version p \<le> version m)"
  then show "check_head_version_skipped_a_version h prevs w =
            (Inr (), w\<lparr>warning_msgs := warning_msgs w @ [skipped_warning h m]\<rparr>)"
    using skip_check_warns[OF assms] by blast
next
  assume a: "Version_kind m = Version_kind h \<and>
      (\<forall>p \<in> set prevs. Version_kind p = Version_kind h \<longrightarrow> version p \<le> version m) \<and>
      check_head_version_already_used h prevs = Inr ()"
  then have "truthy (Version_is_kind m (Version_kind h)) \<and>
         (\<forall>p \<in> set prevs. truthy (Version_is_kind p (Version_kind h)) \<longrightarrow> version p \<le> version m)"
    using same_kind_kept_by_search[OF assms(1,2)] by blast
  then show "check_head_version_skipped_a_version h prevs w =
            (Inr (), w\<lparr>warning_msgs := warning_msgs w @ [skipped_warning h m]\<rparr>)"
    using skip_check_warns[OF assms] by blast
next
  assume "Version_kind m = Version_kind h \<and>
      (\<forall>p \<in> set prevs. Version_kind p = Version_kind h \<longrightarrow> version p \<le> version m) \<and>
      get_head_versions (env_versions e) (env_head_sha1 e) = Inr (Some (h # rest), prevs) \<and>
      check_head_version_already_used h prevs = Inr () \<and>
      tags_annotated e (h # rest) \<and>
      check_head_has_multiple_versions (h # rest) = Inr () \<and>
      clean_tree e \<and> no_stray_tags e"
  then show "fst (run e target w0) = Inr (0, None, [skipped_warning h m])"
    using run_with_earlier_version[OF assms] by blast
qed

lemma earlier_version_warns_example:
  "fst (run
      \<lparr>env_versions =
         [Version_init 1 0 0 (Some ''1'') (Some 10006000) (Some ''head'') (Some ''10006000/V1_00_00''),
          Version_init 1 1 0 (Some ''2'') (Some 10006000) (Some ''newer'') (Some ''10006000/V1_01_00'')],
       env_head_sha1 = ''head'',
       env_git = (\<lambda>c. if c = ''git diff'' then Some []
                     else if c = ''git diff --cached'' then Some []
                     else if c = ''git for-each-ref --format=\"%(objecttype)\" refs/tags/10006000/V1_00_00''
                       then Some ''tag\<newline>''
                     else if c = ''git tag --points-at HEAD'' then Some ''10006000/V1_00_00\<newline>''
                     else None),
       env_repr = (\<lambda>tags. [])\<rparr>
      ''SwPackageVersion.h''
      \<lparr>warning_msgs = [], git_calls = [], files = Map.empty, stdout = []\<rparr>)
     = Inr (0, None,
        [''HEAD is tagged with version 1.00.00 but the most recent version is 1.01.00. Was this the intention (you might have checked out an earlier commit)?'']) \<and>
   check_head_version_skipped_a_version
      (Version_init 1 0 0 (Some ''1'') (Some 10006000) (Some ''head'') (Some ''10006000/V1_00_00''))
      [Version_init 1 1 0 (Some ''2'') (Some 10006000) (Some ''newer'') (Some ''10006000/V1_01_00'')]
      \<lparr>warning_msgs = [], git_calls = [], files = Map.empty, stdout = []\<rparr>
     = (Inr (),
        \<lparr>warning_msgs = [''HEAD is tagged with version 1.00.00 but the most recent version is 1.01.00. Was this the intention (you might have checked out an earlier commit)?''],
          git_calls = [], files = Map.empty, stdout = []\<rparr>)"
proof -
  let ?H = "Version_init 1 0 0 (Some ''1'') (Some 10006000) (Some ''head'') (Some ''10006000/V1_00_00'')"
  let ?P = "Version_init 1 1 0 (Some ''2'') (Some 10006000) (Some ''newer'') (Some ''10006000/V1_01_00'')"
  let ?E = "\<lparr>env_versions = [?H, ?P], env_head_sha1 = ''head'',
       env_git = (\<lambda>c. if c = ''git diff'' then Some []
                     else if c = ''git diff --cached'' then Some []
                     else if c = ''git for-each-ref --format=\"%(objecttype)\" refs/tags/10006000/V1_00_00''
                       then Some ''tag\<newline>''
                     else if c = ''git tag --points-at HEAD'' then Some ''10006000/V1_00_00\<newline>''
                     else None),
       env_repr = (\<lambda>tags. [])\<rparr>"
  let ?W0 = "\<lparr>warning_msgs = [], git_calls = [], files = Map.empty, stdout = []\<rparr>"
  have a1: "?P \<in> set [?P]" and a2: "version ?H \<le> version ?P"
    and a3: "\<forall>p \<in> set [?P]. in_range p"
    by (simp_all add: in_range_def)
  have kinds: "Version_kind ?P = Version_kind ?H"
      "\<forall>p \<in> set [?P]. Version_kind p = Version_kind ?H \<longrightarrow> version p \<le> version ?P"
    by (simp_all add: Version_kind_def first_test_version_def)
  have ghv: "get_head_versions (env_versions ?E) (env_head_sha1 ?E) = Inr (Some (?H # []), [?P])"
    by (simp add: get_head_versions_def Let_def Version_eq_def)
  have dup: "check_head_version_already_used ?H [?P] = Inr ()"
    by (simp add: Version_eq_def)
  have ann: "tags_annotated ?E (?H # [])" by code_simp
  have mul: "check_head_has_multiple_versions (?H # []) = Inr ()"
    by (simp add: check_head_has_multiple_versions_def first_def Version_ne_def)
  have cln: "clean_tree ?E" by code_simp
  have str: "no_stray_tags ?E" by code_simp
  have w: "skipped_warning ?H ?P = ''HEAD is tagged with version 1.00.00 but the most recent version is 1.01.00. Was this the intention (you might have checked out an earlier commit)?''"
    by code_simp
  note t = earlier_version_warns[OF a1 a2 a3, of ?W0 ?E "[]" "''SwPackageVersion.h''" ?W0]
  note r = t[THEN conjunct2, THEN conjunct2, rule_format,
      OF conjI[OF kinds(1) conjI[OF kinds(2) conjI[OF ghv conjI[OF dup conjI[OF ann
         conjI[OF mul conjI[OF cln str]]]]]]]]
  note s = t[THEN conjunct2, THEN conjunct1, rule_format,
      OF conjI[OF kinds(1) conjI[OF kinds(2) dup]]]
  show ?thesis using r s by (simp add: w)
qed


end
